theory Spec2Isabelle
  imports Complex_Main
begin

section \<open>JavaScript values\<close>

text \<open>
  The application logic is the script \<^verbatim>\<open>app.js\<close>. Its numbers are JavaScript
  numbers; every number the engine stores is integral, except that arithmetic on a
  missing property gives \<^verbatim>\<open>NaN\<close>, which then propagates. A stored number is an
  integer or \<^verbatim>\<open>NaN\<close>.
\<close>

datatype jsnum = Num int | NaN

fun js_add :: "jsnum \<Rightarrow> jsnum \<Rightarrow> jsnum" where
  "js_add (Num a) (Num b) = Num (a + b)"
| "js_add _ _ = NaN"

fun js_sub :: "jsnum \<Rightarrow> jsnum \<Rightarrow> jsnum" where
  "js_sub (Num a) (Num b) = Num (a - b)"
| "js_sub _ _ = NaN"

fun js_lt :: "jsnum \<Rightarrow> jsnum \<Rightarrow> bool" where
  "js_lt (Num a) (Num b) = (a < b)"
| "js_lt _ _ = False"

definition to_number :: "int option \<Rightarrow> jsnum" where
  \<comment> \<open>a property that may be \<^verbatim>\<open>undefined\<close>, read in an arithmetic position\<close>
  "to_number v = (case v of None \<Rightarrow> NaN | Some n \<Rightarrow> Num n)"

definition js_rem :: "int \<Rightarrow> int \<Rightarrow> jsnum" where
  \<comment> \<open>\<^verbatim>\<open>a % b\<close>: the remainder takes the sign of the dividend; \<^verbatim>\<open>a % 0\<close> is NaN\<close>
  "js_rem a b = (if b = 0 then NaN else Num (sgn a * (\<bar>a\<bar> mod \<bar>b\<bar>)))"

section \<open>Dates\<close>

text \<open>
  A \<^verbatim>\<open>Date\<close> is modelled by its local wall-clock reading in milliseconds, counted
  from local midnight of 1970-01-01. The local calendar day is the quotient by the length
  of a day, \<^verbatim>\<open>setDate(getDate() + k)\<close> keeps the time of day and moves by whole calendar
  days, \<^verbatim>\<open>setHours(h, 0, 0, 0)\<close> keeps the calendar day, and the calendar fields come from
  the proleptic Gregorian calendar. Timestamps are stored as ISO strings and parsed back
  to the same date, so the model stores the date. Where the script reads UTC digits (the
  value of \<^verbatim>\<open>Date.now()\<close> inside generated ids, one timestamp constant) the offset is
  taken to be zero.
\<close>

type_synonym Time = int

definition msPerDay :: int where
  "msPerDay = 24 * 60 * 60 * 1000"

definition msPerHour :: int where
  "msPerHour = 60 * 60 * 1000"

definition localDay :: "Time \<Rightarrow> int" where
  "localDay t = t div msPerDay"

definition getHours :: "Time \<Rightarrow> int" where
  "getHours t = (t mod msPerDay) div msPerHour"

definition addDays :: "Time \<Rightarrow> int \<Rightarrow> Time" where
  \<comment> \<open>\<^verbatim>\<open>d.setDate(d.getDate() + k)\<close>\<close>
  "addDays t k = t + k * msPerDay"

definition setHours :: "Time \<Rightarrow> int \<Rightarrow> Time" where
  \<comment> \<open>\<^verbatim>\<open>d.setHours(h, 0, 0, 0)\<close>\<close>
  "setHours t h = localDay t * msPerDay + h * msPerHour"

text \<open>
  The difference of two dates is the difference of their instants. A \<open>zone\<close> gives, for a
  wall-clock reading, the offset from UTC in force at that reading, in milliseconds
  (wall-clock time less UTC); it is a parameter of every function that subtracts dates.
  Comparisons of two dates are made on the wall-clock readings, whose order is the order
  of the instants except within an hour that the clocks repeat. The hours set by the
  script, 00:00 and 06:00, are taken to exist on every day: a zone that moves its clocks
  forward at midnight is outside the model.
\<close>

definition elapsed :: "(Time \<Rightarrow> int) \<Rightarrow> Time \<Rightarrow> Time \<Rightarrow> int" where
  \<comment> \<open>\<^verbatim>\<open>a - b\<close> for two dates\<close>
  "elapsed zone a b = (a - zone a) - (b - zone b)"

definition civil_from_days :: "int \<Rightarrow> int \<times> int \<times> int" where
  \<comment> \<open>year, month (1 to 12) and day of month of a day number\<close>
  "civil_from_days n =
     (let z = n + 719468;
          era = z div 146097;
          doe = z mod 146097;
          yoe = (doe - doe div 1460 + doe div 36524 - doe div 146096) div 365;
          y = yoe + era * 400;
          doy = doe - (365 * yoe + yoe div 4 - yoe div 100);
          mp = (5 * doy + 2) div 153;
          d = doy - (153 * mp + 2) div 5 + 1;
          m = (if mp < 10 then mp + 3 else mp - 9)
      in (if m \<le> 2 then y + 1 else y, m, d))"


definition getFullYear :: "Time \<Rightarrow> int" where
  "getFullYear t = fst (civil_from_days (localDay t))"

definition getMonth :: "Time \<Rightarrow> int" where
  \<comment> \<open>0 is January\<close>
  "getMonth t = fst (snd (civil_from_days (localDay t))) - 1"

definition getDate :: "Time \<Rightarrow> int" where
  "getDate t = snd (snd (civil_from_days (localDay t)))"

definition getDay :: "Time \<Rightarrow> int" where
  \<comment> \<open>0 is Sunday; day number 0 was a Thursday\<close>
  "getDay t = (localDay t + 4) mod 7"


function digits :: "int \<Rightarrow> string" where
  "digits n = (if n < 10 then [''0123456789'' ! nat n]
               else digits (n div 10) @ [''0123456789'' ! nat (n mod 10)])"
  by pat_completeness auto
termination
  by (relation "measure nat") auto

declare digits.simps [simp del]

definition String :: "int \<Rightarrow> string" where
  \<comment> \<open>the decimal rendering of an integer\<close>
  "String n = (if n < 0 then ''-'' @ digits (- n) else digits n)"

definition padStart2 :: "string \<Rightarrow> string" where
  \<comment> \<open>\<^verbatim>\<open>s.padStart(2, '0')\<close>\<close>
  "padStart2 s = replicate (2 - length s) (CHR ''0'') @ s"

definition getDateString :: "Time \<Rightarrow> string" where
  "getDateString date =
     (let year = getFullYear date;
          month = padStart2 (String (getMonth date + 1));
          day = padStart2 (String (getDate date))
      in String year @ ''-'' @ month @ ''-'' @ day)"

definition getTodayDateString :: "Time \<Rightarrow> string" where
  \<comment> \<open>the argument is the clock reading \<^verbatim>\<open>new Date()\<close>\<close>
  "getTodayDateString now0 =
     (let now = (if getHours now0 < 6 then addDays now0 (- 1) else now0);
          year = getFullYear now;
          month = padStart2 (String (getMonth now + 1));
          day = padStart2 (String (getDate now))
      in String year @ ''-'' @ month @ ''-'' @ day)"

definition getResetDateString :: "Time \<Rightarrow> string" where
  "getResetDateString now0 =
     (let now = (if getHours now0 < 6 then addDays now0 (- 1) else now0);
          year = getFullYear now;
          month = padStart2 (String (getMonth now + 1));
          day = padStart2 (String (getDate now))
      in String year @ ''-'' @ month @ ''-'' @ day)"

definition hDate :: "Time \<Rightarrow> string" where
  \<comment> \<open>the block that buckets a stored \<^verbatim>\<open>completedAt\<close>, written out in
      \<^verbatim>\<open>toggleRecurringTask\<close>, \<^verbatim>\<open>runMigrationsAndCleanup\<close>, \<^verbatim>\<open>toggleSubtask\<close>,
      \<^verbatim>\<open>runBackfillJan31\<close> and \<^verbatim>\<open>calculateRecurringConsistency\<close>\<close>
  "hDate completedAt =
     (let date = (if getHours completedAt < 6 then addDays completedAt (- 1) else completedAt)
      in getDateString date)"

definition dayNamesLong :: "string list" where
  "dayNamesLong = [''Sunday'', ''Monday'', ''Tuesday'', ''Wednesday'', ''Thursday'',
                   ''Friday'', ''Saturday'']"

definition monthNamesLong :: "string list" where
  "monthNamesLong = [''January'', ''February'', ''March'', ''April'', ''May'', ''June'',
     ''July'', ''August'', ''September'', ''October'', ''November'', ''December'']"

definition toLocaleDateString :: "Time \<Rightarrow> string" where
  \<comment> \<open>\<^verbatim>\<open>toLocaleDateString('en-US', {weekday: 'long', year: 'numeric', month: 'long',
      day: 'numeric'})\<close>\<close>
  "toLocaleDateString d =
     dayNamesLong ! nat (getDay d) @ '', '' @ monthNamesLong ! nat (getMonth d) @ '' ''
       @ String (getDate d) @ '', '' @ String (getFullYear d)"

definition historyGroupDate :: "Time option \<Rightarrow> string" where
  \<comment> \<open>the grouping key of \<^verbatim>\<open>renderHistory\<close>\<close>
  "historyGroupDate completedAt =
     (case completedAt of
        None \<Rightarrow> ''Unknown Date''
      | Some c \<Rightarrow>
          (let completedDate = (if getHours c < 6 then addDays c (- 1) else c)
           in toLocaleDateString completedDate))"

section \<open>Recurring task definitions and the recurrence checks\<close>

record Subtask =
  s_id :: string
  s_title :: string
  s_completed :: bool
  s_coins :: int

text \<open>
  A recurring task definition. \<open>r_type\<close> is absent on the preset tasks; the interval
  fields are read only when the type is \<^verbatim>\<open>interval\<close>. A definition without a subtask
  list has the empty list.
\<close>

record RecurringTask =
  r_id :: string
  r_title :: string
  r_notes :: string
  r_difficulty :: string
  r_subtasks :: "Subtask list"
  r_distributeCoins :: bool
  r_type :: "string option"
  r_activeDays :: int
  r_breakDays :: int
  r_cycleStartDate :: "Time option"
  r_createdAt :: "Time option"

definition falsy :: "string option \<Rightarrow> bool" where
  \<comment> \<open>\<^verbatim>\<open>!s\<close> for a property that is a string or missing\<close>
  "falsy s = (s = None \<or> s = Some [])"

definition shouldShowIntervalTask :: "(Time \<Rightarrow> int) \<Rightarrow> Time \<Rightarrow> RecurringTask \<Rightarrow> bool" where
  \<comment> \<open>\<open>now0\<close> is the clock reading \<^verbatim>\<open>new Date()\<close>\<close>
  "shouldShowIntervalTask zone now0 task =
     (if falsy (r_type task) \<or> r_type task = Some ''daily'' then True
      else
        (case r_cycleStartDate task of
           None \<Rightarrow> True
         | Some cycleStartDate \<Rightarrow>
             if r_type task \<noteq> Some ''interval'' then True
             else
               (let now = setHours (if getHours now0 < 6 then addDays now0 (- 1) else now0) 6;
                    startDate = setHours cycleStartDate 6;
                    daysSinceStart = elapsed zone now startDate div msPerDay;
                    totalCycle = r_activeDays task + r_breakDays task;
                    dayInCycle = js_rem daysSinceStart totalCycle
                in js_lt dayInCycle (Num (r_activeDays task)))))"

definition isTaskActiveOnDate :: "(Time \<Rightarrow> int) \<Rightarrow> RecurringTask \<Rightarrow> Time \<Rightarrow> bool" where
  "isTaskActiveOnDate zone task date =
     (let checkDate = setHours date 0;
          notYetCreated =
            (case r_createdAt task of
               None \<Rightarrow> False
             | Some createdAt \<Rightarrow> checkDate < setHours createdAt 0)
      in
        if notYetCreated then False
        else if r_type task = Some ''daily'' \<or> falsy (r_type task) then True
        else
          (case r_cycleStartDate task of
             None \<Rightarrow> True
           | Some cycleStartDate \<Rightarrow>
               if r_type task \<noteq> Some ''interval'' then True
               else
                 (let cycleStart = setHours cycleStartDate 0;
                      daysDiff = elapsed zone checkDate cycleStart div (1000 * 60 * 60 * 24)
                  in
                    if daysDiff < 0 then False
                    else
                      (let cycleLength = r_activeDays task + r_breakDays task;
                           dayInCycle = js_rem daysDiff cycleLength
                       in js_lt dayInCycle (Num (r_activeDays task))))))"

text \<open>
  Day numbers used to state the properties: \<open>appDay\<close> is the local day of a timestamp
  after the 06:00 shift, and \<open>dateOfDay\<close> and \<open>longDateOfDay\<close> are the two renderings of
  a day number.
\<close>

definition appDay :: "Time \<Rightarrow> int" where
  "appDay t = (if getHours t < 6 then localDay t - 1 else localDay t)"

definition dateOfDay :: "int \<Rightarrow> string" where
  "dateOfDay n = getDateString (n * msPerDay)"

definition longDateOfDay :: "int \<Rightarrow> string" where
  "longDateOfDay n = toLocaleDateString (n * msPerDay)"

section \<open>Application state\<close>

text \<open>
  One record type serves the active task list and the completed history: completing a
  task moves the task object itself into the history, and un-completing moves whatever
  history object carries the id back. The fields \<open>t_isRecurring\<close>, \<open>t_recurringId\<close> and
  \<open>t_coins\<close> are the ones only synthetic history entries carry; a missing boolean
  reads as false.
\<close>

record Task =
  t_id :: string
  t_title :: string
  t_notes :: string
  t_difficulty :: string
  t_subtasks :: "Subtask list"
  t_distributeCoins :: bool
  t_createdAt :: "Time option"
  t_expiresAt :: "Time option"
  t_completed :: bool
  t_completedAt :: "Time option"
  t_isRecurring :: bool
  t_recurringId :: "string option"
  t_coins :: "int option"

record Reward =
  rw_id :: string
  rw_name :: string
  rw_description :: string
  rw_category :: string
  rw_cost :: int
  rw_timesClaimed :: nat
  rw_lastClaimedAt :: "Time option"
  rw_createdAt :: "Time option"

record ShopItem =
  si_id :: string
  si_name :: string
  si_emoji :: string
  si_baseCost :: int
  si_scaling :: "int option"
  si_scalingType :: "string option"
  si_isCustom :: bool
  si_createdAt :: "Time option"

record Purchase =
  p_count :: nat
  p_lastResetDate :: string

text \<open>
  The statistics. The two coin totals are numbers that arithmetic can turn into NaN. The
  counters only move by \<^verbatim>\<open>++\<close> and by a \<^verbatim>\<open>--\<close> guarded by \<^verbatim>\<open>> 0\<close>; they are
  natural numbers. The last three fields are the flags of the one-time repairs.
\<close>

record Stats =
  totalCoinsEarned :: jsnum
  currentBalance :: jsnum
  tasksCompletedQuick :: nat
  tasksCompletedEasy :: nat
  tasksCompletedMedium :: nat
  tasksCompletedHard :: nat
  tasksCompletedEpic :: nat
  rewardsClaimed :: nat
  currentStreak :: nat
  bestStreak :: nat
  lastActiveDate :: "string option"
  economy_recalc_2026_01 :: bool
  weekend_sale_refund_2026_01_18 :: bool
  jan20_missing_tasks_fix_v2 :: bool

text \<open>
  The snapshot \<^verbatim>\<open>appData\<close>. The two lists that only the rendering code and the pin and
  hide buttons touch (\<^verbatim>\<open>focusPinnedIds\<close>, \<^verbatim>\<open>hiddenShopItems\<close>) are left out.
\<close>

record AppData =
  tasks :: "Task list"
  recurringTasks :: "RecurringTask list"
  recurringCompletions :: "string \<rightharpoonup> string"
  completedHistory :: "Task list"
  rewards :: "Reward list"
  customShopItems :: "ShopItem list"
  stats :: Stats
  shopPurchases :: "string \<rightharpoonup> Purchase"
  presetsInitialized :: bool

definition initialAppData :: AppData where
  "initialAppData =
     \<lparr>tasks = [], recurringTasks = [], recurringCompletions = Map.empty,
      completedHistory = [], rewards = [], customShopItems = [],
      stats = \<lparr>totalCoinsEarned = Num 0, currentBalance = Num 0, tasksCompletedQuick = 0,
        tasksCompletedEasy = 0, tasksCompletedMedium = 0, tasksCompletedHard = 0,
        tasksCompletedEpic = 0, rewardsClaimed = 0, currentStreak = 0, bestStreak = 0,
        lastActiveDate = None, economy_recalc_2026_01 = False,
        weekend_sale_refund_2026_01_18 = False, jan20_missing_tasks_fix_v2 = False\<rparr>,
      shopPurchases = Map.empty, presetsInitialized = False\<rparr>"

definition DIFFICULTIES :: "string \<Rightarrow> int option" where
  \<comment> \<open>the \<^verbatim>\<open>coins\<close> of each tier; any other key has no entry. The keys that every
      object inherits (such as \<^verbatim>\<open>constructor\<close>), for which the lookup finds an object
      without \<^verbatim>\<open>coins\<close>, are read as having no entry too.\<close>
  "DIFFICULTIES d =
     (if d = ''quick'' then Some 5
      else if d = ''easy'' then Some 15
      else if d = ''medium'' then Some 25
      else if d = ''hard'' then Some 50
      else if d = ''epic'' then Some 75
      else None)"

text \<open>
  A function that reads \<^verbatim>\<open>DIFFICULTIES[d].coins\<close> for a key with no entry throws a
  TypeError. Nothing is rolled back: the outcome carries the snapshot as the call left it
  in memory.
\<close>

datatype 'a outcome = Returned 'a | Threw 'a

fun state_of :: "'a outcome \<Rightarrow> 'a" where
  "state_of (Returned s) = s"
| "state_of (Threw s) = s"

fun findIndex :: "('a \<Rightarrow> bool) \<Rightarrow> 'a list \<Rightarrow> nat option" where
  "findIndex P [] = None"
| "findIndex P (x # xs) = (if P x then Some 0 else map_option Suc (findIndex P xs))"

definition splice1 :: "nat \<Rightarrow> 'a list \<Rightarrow> 'a list" where
  \<comment> \<open>\<^verbatim>\<open>xs.splice(i, 1)\<close>\<close>
  "splice1 i xs = take i xs @ drop (Suc i) xs"

definition toUpperCase :: "char \<Rightarrow> char" where
  "toUpperCase c =
     (case map_of (zip ''abcdefghijklmnopqrstuvwxyz'' ''ABCDEFGHIJKLMNOPQRSTUVWXYZ'') c of
        None \<Rightarrow> c
      | Some u \<Rightarrow> u)"

definition toLowerCase :: "char \<Rightarrow> char" where
  "toLowerCase c =
     (case map_of (zip ''ABCDEFGHIJKLMNOPQRSTUVWXYZ'' ''abcdefghijklmnopqrstuvwxyz'') c of
        None \<Rightarrow> c
      | Some l \<Rightarrow> l)"

definition counterKey :: "string \<Rightarrow> string" where
  \<comment> \<open>\<^verbatim>\<open>`tasksCompleted${d.charAt(0).toUpperCase()}${d.slice(1)}`\<close>\<close>
  "counterKey d =
     (case d of [] \<Rightarrow> ''tasksCompleted'' | c # cs \<Rightarrow> ''tasksCompleted'' @ toUpperCase c # cs)"

definition statsCounter :: "Stats \<Rightarrow> string \<Rightarrow> nat option" where
  \<comment> \<open>\<^verbatim>\<open>stats[key]\<close> for a key built by \<open>counterKey\<close>; no other property of the statistics
      starts with \<^verbatim>\<open>tasksCompleted\<close>\<close>
  "statsCounter st key =
     (if key = ''tasksCompletedQuick'' then Some (tasksCompletedQuick st)
      else if key = ''tasksCompletedEasy'' then Some (tasksCompletedEasy st)
      else if key = ''tasksCompletedMedium'' then Some (tasksCompletedMedium st)
      else if key = ''tasksCompletedHard'' then Some (tasksCompletedHard st)
      else if key = ''tasksCompletedEpic'' then Some (tasksCompletedEpic st)
      else None)"

definition setStatsCounter :: "Stats \<Rightarrow> string \<Rightarrow> nat \<Rightarrow> Stats" where
  "setStatsCounter st key n =
     (if key = ''tasksCompletedQuick'' then st\<lparr>tasksCompletedQuick := n\<rparr>
      else if key = ''tasksCompletedEasy'' then st\<lparr>tasksCompletedEasy := n\<rparr>
      else if key = ''tasksCompletedMedium'' then st\<lparr>tasksCompletedMedium := n\<rparr>
      else if key = ''tasksCompletedHard'' then st\<lparr>tasksCompletedHard := n\<rparr>
      else if key = ''tasksCompletedEpic'' then st\<lparr>tasksCompletedEpic := n\<rparr>
      else st)"

definition incrementTaskCount :: "string \<Rightarrow> Stats \<Rightarrow> Stats" where
  \<comment> \<open>called only after \<open>DIFFICULTIES\<close> had an entry for the difficulty, so the counter
      exists\<close>
  "incrementTaskCount difficulty st =
     (let key = counterKey difficulty
      in case statsCounter st key of
           None \<Rightarrow> st
         | Some n \<Rightarrow> setStatsCounter st key (n + 1))"

definition decrementTaskCount :: "string \<Rightarrow> Stats \<Rightarrow> Stats" where
  "decrementTaskCount difficulty st =
     (let key = counterKey difficulty
      in case statsCounter st key of
           None \<Rightarrow> st
         | Some n \<Rightarrow> if n > 0 then setStatsCounter st key (n - 1) else st)"

definition addCoins :: "jsnum \<Rightarrow> Stats \<Rightarrow> Stats" where
  \<comment> \<open>\<^verbatim>\<open>stats.totalCoinsEarned += coins; stats.currentBalance += coins\<close>\<close>
  "addCoins coins st =
     st\<lparr>totalCoinsEarned := js_add (totalCoinsEarned st) coins,
        currentBalance := js_add (currentBalance st) coins\<rparr>"

definition removeCoins :: "jsnum \<Rightarrow> Stats \<Rightarrow> Stats" where
  \<comment> \<open>\<^verbatim>\<open>stats.totalCoinsEarned -= coins; stats.currentBalance -= coins\<close>\<close>
  "removeCoins coins st =
     st\<lparr>totalCoinsEarned := js_sub (totalCoinsEarned st) coins,
        currentBalance := js_sub (currentBalance st) coins\<rparr>"

definition dateNow :: "Time \<Rightarrow> int" where
  \<comment> \<open>\<^verbatim>\<open>Date.now()\<close> at a clock reading, used only inside generated ids; the digits
      are those of the wall-clock reading, as in a zone with no offset\<close>
  "dateNow now = now"

section \<open>Completion and the coin ledger\<close>

definition toggleTask :: "Time \<Rightarrow> string \<Rightarrow> AppData \<Rightarrow> AppData outcome" where
  "toggleTask now ident s =
     (case findIndex (\<lambda>t. t_id t = ident) (tasks s) of
        None \<Rightarrow> Returned s
      | Some taskIndex \<Rightarrow>
          (let task = (tasks s ! taskIndex)\<lparr>t_completed := True, t_completedAt := Some now\<rparr>
           in case DIFFICULTIES (t_difficulty task) of
                None \<Rightarrow> Threw (s\<lparr>tasks := (tasks s)[taskIndex := task]\<rparr>)
              | Some coins \<Rightarrow>
                  Returned (s\<lparr>stats :=
                                incrementTaskCount (t_difficulty task)
                                  (addCoins (Num coins) (stats s)),
                              completedHistory := task # completedHistory s,
                              tasks := splice1 taskIndex (tasks s)\<rparr>)))"

definition uncompleteTask :: "string \<Rightarrow> AppData \<Rightarrow> AppData outcome" where
  "uncompleteTask ident s =
     (case findIndex (\<lambda>t. t_id t = ident) (completedHistory s) of
        None \<Rightarrow> Returned s
      | Some taskIndex \<Rightarrow>
          (let task = completedHistory s ! taskIndex
           in case DIFFICULTIES (t_difficulty task) of
                None \<Rightarrow> Threw s
              | Some coins \<Rightarrow>
                  Returned (s\<lparr>stats :=
                                decrementTaskCount (t_difficulty task)
                                  (removeCoins (Num coins) (stats s)),
                              tasks :=
                                task\<lparr>t_completed := False, t_completedAt := None\<rparr> # tasks s,
                              completedHistory := splice1 taskIndex (completedHistory s)\<rparr>)))"

definition isRecurringCompletedToday :: "Time \<Rightarrow> string \<Rightarrow> AppData \<Rightarrow> bool" where
  "isRecurringCompletedToday now taskId s =
     (let today = getTodayDateString now in recurringCompletions s taskId = Some today)"

definition isTodaysEntryOf :: "string \<Rightarrow> string \<Rightarrow> Task \<Rightarrow> bool" where
  \<comment> \<open>the callback that looks for the history entry of a recurring task on the
      app-date \<open>today\<close>\<close>
  "isTodaysEntryOf ident today t =
     (case t_completedAt t of
        None \<Rightarrow> False
      | Some completedAt \<Rightarrow>
          if t_recurringId t = Some ident then hDate completedAt = today else False)"

definition toggleRecurringTask :: "Time \<Rightarrow> string \<Rightarrow> AppData \<Rightarrow> AppData outcome" where
  "toggleRecurringTask now ident s =
     (case find (\<lambda>t. r_id t = ident) (recurringTasks s) of
        None \<Rightarrow> Returned s
      | Some task \<Rightarrow>
          (let today = getTodayDateString now;
               isCompleted = isRecurringCompletedToday now ident s
           in if isCompleted then
                (case DIFFICULTIES (r_difficulty task) of
                   None \<Rightarrow> Threw s
                 | Some coins \<Rightarrow>
                     Returned (s\<lparr>stats :=
                                   decrementTaskCount (r_difficulty task)
                                     (removeCoins (Num coins) (stats s)),
                                 recurringCompletions :=
                                   (recurringCompletions s)(ident := None),
                                 completedHistory :=
                                   (case findIndex (isTodaysEntryOf ident today)
                                           (completedHistory s) of
                                      None \<Rightarrow> completedHistory s
                                    | Some historyIndex \<Rightarrow>
                                        splice1 historyIndex (completedHistory s))\<rparr>))
              else
                (case DIFFICULTIES (r_difficulty task) of
                   None \<Rightarrow> Threw s
                 | Some coins \<Rightarrow>
                     Returned (s\<lparr>stats :=
                                   incrementTaskCount (r_difficulty task)
                                     (addCoins (Num coins) (stats s)),
                                 recurringCompletions :=
                                   (recurringCompletions s)(ident \<mapsto> today),
                                 completedHistory :=
                                   \<lparr>t_id = ''recurring_'' @ ident @ ''_'' @ String (dateNow now),
                                    t_title = r_title task, t_notes = r_notes task,
                                    t_difficulty = r_difficulty task, t_subtasks = [],
                                    t_distributeCoins = False, t_createdAt = None,
                                    t_expiresAt = None, t_completed = True,
                                    t_completedAt = Some now, t_isRecurring = True,
                                    t_recurringId = Some ident, t_coins = None\<rparr>
                                   # completedHistory s\<rparr>))))"

definition deleteRecurringTask :: "string \<Rightarrow> AppData \<Rightarrow> AppData" where
  "deleteRecurringTask ident s =
     s\<lparr>recurringTasks := filter (\<lambda>t. r_id t \<noteq> ident) (recurringTasks s),
       recurringCompletions := (recurringCompletions s)(ident := None)\<rparr>"

definition deleteTask :: "string \<Rightarrow> AppData \<Rightarrow> AppData" where
  "deleteTask ident s = s\<lparr>tasks := filter (\<lambda>t. t_id t \<noteq> ident) (tasks s)\<rparr>"

definition cleanupExpiredTasks :: "Time \<Rightarrow> AppData \<Rightarrow> AppData" where
  "cleanupExpiredTasks now s =
     (let isExpired = (\<lambda>t. case t_expiresAt t of None \<Rightarrow> False | Some e \<Rightarrow> e \<le> now);
          expiredTasks = filter isExpired (tasks s)
      in if length expiredTasks > 0
         then s\<lparr>tasks := filter (\<lambda>t. case t_expiresAt t of None \<Rightarrow> True | Some e \<Rightarrow> e > now)
                            (tasks s)\<rparr>
         else s)"

section \<open>Shop prices and claims\<close>

definition isWeekendSale :: "Time \<Rightarrow> bool" where
  \<comment> \<open>the argument is the clock reading \<^verbatim>\<open>new Date()\<close>\<close>
  "isWeekendSale now =
     (let day = getDay now;
          hour = getHours now
      in if day = 6 \<and> hour \<ge> 6 then True
         else if day = 0 then True
         else if day = 1 \<and> hour < 6 then True
         else
           (let holidays = [''2026-01-19''];
                dateStr = String (getFullYear now) @ ''-''
                          @ padStart2 (String (getMonth now + 1)) @ ''-''
                          @ padStart2 (String (getDate now))
            in if dateStr \<in> set holidays \<and> hour \<ge> 6 then True
               else
                 (let yesterday = addDays now (- 1);
                      yesterdayStr = String (getFullYear yesterday) @ ''-''
                          @ padStart2 (String (getMonth yesterday + 1)) @ ''-''
                          @ padStart2 (String (getDate yesterday))
                  in if yesterdayStr \<in> set holidays \<and> hour < 6 then True else False)))"

definition ceilHalf :: "int \<Rightarrow> int" where
  \<comment> \<open>\<^verbatim>\<open>Math.ceil(n * 0.5)\<close>\<close>
  "ceilHalf n = - ((- n) div 2)"

definition getShopItemPrice :: "Time \<Rightarrow> ShopItem \<Rightarrow> bool \<Rightarrow> AppData \<Rightarrow> int" where
  \<comment> \<open>The multiplicative sale price goes through \<^verbatim>\<open>Math.sqrt\<close> and \<^verbatim>\<open>Math.pow\<close>; that
      branch is the real-number value, without floating-point rounding.\<close>
  "getShopItemPrice now item isDailyShop s =
     (let resetDate = getResetDateString now;
          purchase = shopPurchases s (si_id item);
          saleActive = (isWeekendSale now \<and> isDailyShop);
          purchaseCount =
            (case purchase of
               None \<Rightarrow> 0
             | Some p \<Rightarrow> if p_lastResetDate p = resetDate then p_count p else 0);
          scalingType =
            (case si_scalingType item of
               None \<Rightarrow> ''add''
             | Some t \<Rightarrow> if t = [] then ''add'' else t);
          scaling = (case si_scaling item of None \<Rightarrow> 0 | Some v \<Rightarrow> v);
          hasIncrement = ((scalingType = ''multiply'' \<and> scaling > 1)
                          \<or> (scalingType = ''add'' \<and> scaling > 0))
      in if \<not> hasIncrement then
           (if saleActive then ceilHalf (si_baseCost item) else si_baseCost item)
         else if scalingType = ''multiply'' then
           (if saleActive then
              (let saleBase = ceilHalf (si_baseCost item);
                   saleScaling = sqrt (real_of_int scaling)
               in \<lceil>real_of_int saleBase * saleScaling ^ purchaseCount\<rceil>)
            else si_baseCost item * scaling ^ purchaseCount)
         else
           (if saleActive then
              (let saleBase = ceilHalf (si_baseCost item);
                   effectiveCount = purchaseCount div 2
               in saleBase + int effectiveCount * scaling)
            else si_baseCost item + int purchaseCount * scaling))"

text \<open>
  The script keeps the claim that is being confirmed in two module variables.
  \<open>currentRewardToClaim\<close> refers to a reward object of \<open>rewards\<close>; the model holds its
  position in the list. No modelled operation removes or reorders rewards, so a position
  keeps denoting the same object. \<open>backfill_jan31_v1\<close> is the flag that
  \<open>runBackfillJan31\<close> keeps in the browser's local storage.
\<close>

record World =
  appData :: AppData
  currentRewardToClaim :: "nat option"
  currentShopItemToClaim :: "(ShopItem \<times> int) option"
  backfill_jan31_v1 :: bool

definition initialWorld :: World where
  "initialWorld = \<lparr>appData = initialAppData, currentRewardToClaim = None,
     currentShopItemToClaim = None, backfill_jan31_v1 = False\<rparr>"

definition SHOP_ITEMS :: "ShopItem list" where
  "SHOP_ITEMS = []"

definition openShopClaimModal :: "Time \<Rightarrow> string \<Rightarrow> World \<Rightarrow> World" where
  "openShopClaimModal now itemId w =
     (let found =
            (case find (\<lambda>i. si_id i = itemId) SHOP_ITEMS of
               Some item \<Rightarrow> Some item
             | None \<Rightarrow> find (\<lambda>i. si_id i = itemId) (customShopItems (appData w)))
      in case found of
           None \<Rightarrow> w
         | Some item \<Rightarrow>
             (let currentPrice = getShopItemPrice now item True (appData w)
              in w\<lparr>currentShopItemToClaim := Some (item, currentPrice)\<rparr>))"

definition openClaimModal :: "string \<Rightarrow> World \<Rightarrow> World" where
  "openClaimModal ident w =
     (case findIndex (\<lambda>r. rw_id r = ident) (rewards (appData w)) of
        None \<Rightarrow> w
      | Some reward \<Rightarrow> w\<lparr>currentRewardToClaim := Some reward, currentShopItemToClaim := None\<rparr>)"

definition closeClaimModal :: "World \<Rightarrow> World" where
  "closeClaimModal w = w\<lparr>currentRewardToClaim := None, currentShopItemToClaim := None\<rparr>"

definition confirmClaimReward :: "Time \<Rightarrow> World \<Rightarrow> World" where
  "confirmClaimReward now w =
     (let s = appData w
      in case currentShopItemToClaim w of
           Some (item, price) \<Rightarrow>
             if js_lt (currentBalance (stats s)) (Num price) then closeClaimModal w
             else
               (let st = (stats s)\<lparr>currentBalance := js_sub (currentBalance (stats s)) (Num price),
                                    rewardsClaimed := rewardsClaimed (stats s) + 1\<rparr>;
                    resetDate = getResetDateString now;
                    record =
                      (case shopPurchases s (si_id item) of
                         None \<Rightarrow> \<lparr>p_count = 1, p_lastResetDate = resetDate\<rparr>
                       | Some p \<Rightarrow>
                           if p_lastResetDate p \<noteq> resetDate
                           then \<lparr>p_count = 1, p_lastResetDate = resetDate\<rparr>
                           else p\<lparr>p_count := p_count p + 1\<rparr>)
                in closeClaimModal
                     (w\<lparr>appData := s\<lparr>stats := st,
                                        shopPurchases := (shopPurchases s)(si_id item \<mapsto> record)\<rparr>\<rparr>))
         | None \<Rightarrow>
             (case currentRewardToClaim w of
                None \<Rightarrow> w
              | Some i \<Rightarrow>
                  if i < length (rewards s) then
                    (let reward = rewards s ! i;
                         st = (stats s)\<lparr>currentBalance :=
                                          js_sub (currentBalance (stats s)) (Num (rw_cost reward)),
                                        rewardsClaimed := rewardsClaimed (stats s) + 1\<rparr>
                     in closeClaimModal
                          (w\<lparr>appData := s\<lparr>stats := st,
                               rewards := (rewards s)[i := reward\<lparr>rw_timesClaimed :=
                                   rw_timesClaimed reward + 1, rw_lastClaimedAt := Some now\<rparr>]\<rparr>\<rparr>))
                  else w))"

section \<open>Subtasks\<close>

definition subtaskCoinLogic :: "bool \<Rightarrow> Subtask \<Rightarrow> Stats \<Rightarrow> Stats" where
  \<comment> \<open>the block under \<^verbatim>\<open>// Coin logic\<close>; the subtask is the one already toggled\<close>
  "subtaskCoinLogic distributeCoins subtask st =
     (if distributeCoins \<and> s_coins subtask > 0 then
        (if s_completed subtask then addCoins (Num (s_coins subtask)) st
         else removeCoins (Num (s_coins subtask)) st)
      else st)"

definition toggleSubtask ::
  "Time \<Rightarrow> string \<Rightarrow> string \<Rightarrow> string \<Rightarrow> AppData \<Rightarrow> AppData outcome" where
  "toggleSubtask now parentId subtaskId type s =
     (if type = ''recurring'' then
        (case findIndex (\<lambda>t. r_id t = parentId) (recurringTasks s) of
           None \<Rightarrow> Returned s
         | Some parent \<Rightarrow>
             (let task0 = recurringTasks s ! parent
              in case findIndex (\<lambda>x. s_id x = subtaskId) (r_subtasks task0) of
                   None \<Rightarrow> Returned s
                 | Some sub \<Rightarrow>
                     (let subtask0 = r_subtasks task0 ! sub;
                          subtask = subtask0\<lparr>s_completed := \<not> s_completed subtask0\<rparr>;
                          task = task0\<lparr>r_subtasks := (r_subtasks task0)[sub := subtask]\<rparr>;
                          s1 = s\<lparr>recurringTasks := (recurringTasks s)[parent := task],
                                 stats := subtaskCoinLogic (r_distributeCoins task) subtask
                                            (stats s)\<rparr>;
                          allCompleted = list_all s_completed (r_subtasks task)
                      in if allCompleted then
                           (if \<not> isRecurringCompletedToday now parentId s1
                            then toggleRecurringTask now parentId s1
                            else Returned s1)
                         else if isRecurringCompletedToday now parentId s1 then
                           (case findIndex (isTodaysEntryOf parentId (getTodayDateString now))
                                   (completedHistory s1) of
                              None \<Rightarrow> Returned s1
                            | Some historyIndex \<Rightarrow>
                                (let entry = completedHistory s1 ! historyIndex
                                 in Returned
                                      (s1\<lparr>stats :=
                                            decrementTaskCount (t_difficulty entry)
                                              (removeCoins (to_number (t_coins entry)) (stats s1)),
                                          completedHistory :=
                                            splice1 historyIndex (completedHistory s1)\<rparr>)))
                         else Returned s1)))
      else
        (case findIndex (\<lambda>t. t_id t = parentId) (tasks s) of
           None \<Rightarrow> Returned s
         | Some parent \<Rightarrow>
             (let task0 = tasks s ! parent
              in case findIndex (\<lambda>x. s_id x = subtaskId) (t_subtasks task0) of
                   None \<Rightarrow> Returned s
                 | Some sub \<Rightarrow>
                     (let subtask0 = t_subtasks task0 ! sub;
                          subtask = subtask0\<lparr>s_completed := \<not> s_completed subtask0\<rparr>;
                          task = task0\<lparr>t_subtasks := (t_subtasks task0)[sub := subtask]\<rparr>;
                          s1 = s\<lparr>tasks := (tasks s)[parent := task],
                                 stats := subtaskCoinLogic (t_distributeCoins task) subtask
                                            (stats s)\<rparr>;
                          allCompleted = list_all s_completed (t_subtasks task)
                      in if allCompleted then
                           (if type = ''task'' \<and> \<not> t_completed task
                            then toggleTask now parentId s1
                            else Returned s1)
                         else if type = ''task'' \<and> t_completed task
                         then uncompleteTask parentId s1
                         else Returned s1))))"

section \<open>Creating tasks and rewards\<close>

text \<open>
  The add-task and add-reward dialogs, as the values the handlers read from the page:
  text fields after \<^verbatim>\<open>trim()\<close>, numeric fields after \<^verbatim>\<open>parseInt\<close> (\<open>None\<close> when the
  result is not a number). \<open>rand\<close> gives the successive \<^verbatim>\<open>Math.random()\<close> suffixes.
\<close>

datatype Expiration = NoExpiration | CustomExpiration "Time option" | PresetDays int

record TaskForm =
  f_title :: string
  f_difficulty :: string
  f_difficultyCoins :: int
  f_notes :: string
  f_isRecurring :: bool
  f_subtaskRows :: "(string \<times> int option) list"
  f_distributeCoins :: bool
  f_recurrenceType :: string
  f_activeDays :: "int option"
  f_breakDays :: "int option"
  f_cycleStart :: "int option"
  f_expiration :: Expiration

definition orDefault :: "int option \<Rightarrow> int \<Rightarrow> int" where
  \<comment> \<open>\<^verbatim>\<open>parseInt(v) || d\<close>\<close>
  "orDefault v d = (case v of None \<Rightarrow> d | Some n \<Rightarrow> if n = 0 then d else n)"

fun parseSubtasks :: "Time \<Rightarrow> (nat \<Rightarrow> string) \<Rightarrow> bool \<Rightarrow> nat \<Rightarrow> (string \<times> int option) list
    \<Rightarrow> Subtask list" where
  "parseSubtasks now rand distributeCoins k [] = []"
| "parseSubtasks now rand distributeCoins k ((sTitle, coin) # rows) =
     (if sTitle \<noteq> [] then
        \<lparr>s_id = ''sub_'' @ String (dateNow now) @ rand k, s_title = sTitle, s_completed = False,
         s_coins = (if distributeCoins then orDefault coin 0 else 0)\<rparr>
          # parseSubtasks now rand distributeCoins (Suc k) rows
      else parseSubtasks now rand distributeCoins k rows)"

definition saveNewTask :: "Time \<Rightarrow> (nat \<Rightarrow> string) \<Rightarrow> TaskForm \<Rightarrow> AppData \<Rightarrow> AppData" where
  "saveNewTask now rand form s =
     (if f_title form = [] then s
      else
        (let subtasks = parseSubtasks now rand (f_distributeCoins form) 0 (f_subtaskRows form);
             subtaskTotalCoins = sum_list (map s_coins subtasks)
         in if f_distributeCoins form \<and> length subtasks > 0
               \<and> subtaskTotalCoins \<noteq> f_difficultyCoins form
            then s
            else if f_isRecurring form then
              (let recurringTask =
                     \<lparr>r_id = ''custom_'' @ String (dateNow now), r_title = f_title form,
                      r_notes = f_notes form, r_difficulty = f_difficulty form,
                      r_subtasks = subtasks, r_distributeCoins = f_distributeCoins form,
                      r_type = Some (f_recurrenceType form), r_activeDays = 0,
                      r_breakDays = 0, r_cycleStartDate = None, r_createdAt = Some now\<rparr>;
                   recurringTask' =
                     (if f_recurrenceType form = ''interval'' then
                        recurringTask
                          \<lparr>r_activeDays := orDefault (f_activeDays form) 3,
                           r_breakDays := orDefault (f_breakDays form) 1,
                           r_cycleStartDate :=
                             Some (setHours (addDays now (- orDefault (f_cycleStart form) 0)) 6)\<rparr>
                      else recurringTask)
               in s\<lparr>recurringTasks := recurringTasks s @ [recurringTask']\<rparr>)
            else
              (let task =
                     \<lparr>t_id = String (dateNow now), t_title = f_title form,
                      t_notes = f_notes form, t_difficulty = f_difficulty form,
                      t_subtasks = subtasks, t_distributeCoins = f_distributeCoins form,
                      t_createdAt = Some now, t_expiresAt = None, t_completed = False,
                      t_completedAt = None, t_isRecurring = False, t_recurringId = None,
                      t_coins = None\<rparr>;
                   task' =
                     (case f_expiration form of
                        NoExpiration \<Rightarrow> task
                      | CustomExpiration customDT \<Rightarrow>
                          (case customDT of
                             None \<Rightarrow> task
                           | Some dt \<Rightarrow> task\<lparr>t_expiresAt := Some dt\<rparr>)
                      | PresetDays expirationDays \<Rightarrow>
                          (let next6AM = setHours now 6;
                               next6AM' = (if getHours now \<ge> 6 then addDays next6AM 1
                                           else next6AM)
                           in task\<lparr>t_expiresAt := Some (addDays next6AM' expirationDays)\<rparr>))
               in s\<lparr>tasks := task' # tasks s\<rparr>)))"

definition CATEGORIES :: "string \<Rightarrow> string option" where
  \<comment> \<open>the emoji of each category, by its name\<close>
  "CATEGORIES c =
     (if c = ''food'' then Some ''pizza''
      else if c = ''entertainment'' then Some ''game''
      else if c = ''purchase'' then Some ''bags''
      else if c = ''experience'' then Some ''sparkles''
      else if c = ''selfcare'' then Some ''massage''
      else if c = ''other'' then Some ''gift''
      else None)"

record RewardForm =
  g_name :: string
  g_addToShop :: bool
  g_category :: string
  g_baseCost :: int
  g_scalingType :: "string option"
  g_scaling :: "int option"
  g_description :: string

definition saveNewReward :: "Time \<Rightarrow> RewardForm \<Rightarrow> AppData \<Rightarrow> AppData" where
  "saveNewReward now form s =
     (if g_name form = [] then s
      else if g_addToShop form then
        (let scalingType =
               (case g_scalingType form of
                  None \<Rightarrow> ''add''
                | Some t \<Rightarrow> if t = [] then ''add'' else t);
             shopItem =
               \<lparr>si_id = ''custom_'' @ String (dateNow now), si_name = g_name form,
                si_emoji = (case CATEGORIES (g_category form) of
                              None \<Rightarrow> ''gift''
                            | Some e \<Rightarrow> if e = [] then ''gift'' else e),
                si_baseCost = g_baseCost form, si_scaling = g_scaling form,
                si_scalingType = Some scalingType, si_isCustom = True,
                si_createdAt = Some now\<rparr>
         in s\<lparr>customShopItems := customShopItems s @ [shopItem]\<rparr>)
      else
        (let reward =
               \<lparr>rw_id = String (dateNow now), rw_name = g_name form,
                rw_description = g_description form, rw_category = g_category form,
                rw_cost = g_baseCost form, rw_timesClaimed = 0, rw_lastClaimedAt = None,
                rw_createdAt = Some now\<rparr>
         in s\<lparr>rewards := rewards s @ [reward]\<rparr>))"

definition PRESET_RECURRING_TASKS :: "(string \<times> string \<times> string \<times> string) list" where
  \<comment> \<open>id, title, notes, difficulty\<close>
  "PRESET_RECURRING_TASKS =
     [(''brush_morning'', ''Brush'', ''morning'', ''quick''),
      (''brush_night'', ''Brush'', ''night'', ''quick''),
      (''floss'', ''Floss'', [], ''quick'')]"

definition addPresets :: "Time \<Rightarrow> AppData \<Rightarrow> AppData" where
  "addPresets now s =
     s\<lparr>recurringTasks :=
         recurringTasks s @
         map (\<lambda>(pid, ptitle, pnotes, pdifficulty).
                \<lparr>r_id = pid, r_title = ptitle, r_notes = pnotes, r_difficulty = pdifficulty,
                 r_subtasks = [], r_distributeCoins = False, r_type = None, r_activeDays = 0,
                 r_breakDays = 0, r_cycleStartDate = None, r_createdAt = Some now\<rparr>)
             PRESET_RECURRING_TASKS,
       presetsInitialized := True\<rparr>"

section \<open>Load-time migrations and repairs\<close>

definition trueTotalEarned :: "Task list \<Rightarrow> int" where
  \<comment> \<open>the \<^verbatim>\<open>forEach\<close> that sums the tier coins of the history\<close>
  "trueTotalEarned history =
     foldl (\<lambda>acc t. if t_difficulty t \<noteq> []
                      then (case DIFFICULTIES (t_difficulty t) of
                              None \<Rightarrow> acc
                            | Some coins \<Rightarrow> acc + coins)
                      else acc)
       0 history"

definition jan20Timestamp :: Time where
  \<comment> \<open>\<^verbatim>\<open>'2026-01-20T22:00:00.000Z'\<close>\<close>
  "jan20Timestamp = 1768946400000"

definition jan20Entry :: "string \<Rightarrow> RecurringTask \<Rightarrow> Task" where
  "jan20Entry ident task =
     \<lparr>t_id = ident, t_title = r_title task, t_notes = r_notes task,
      t_difficulty = r_difficulty task, t_subtasks = [], t_distributeCoins = False,
      t_createdAt = None, t_expiresAt = None, t_completed = False,
      t_completedAt = Some jan20Timestamp, t_isRecurring = True,
      t_recurringId = Some (r_id task), t_coins = None\<rparr>"

definition addJan20Entry :: "string \<Rightarrow> string \<Rightarrow> AppData \<Rightarrow> AppData" where
  \<comment> \<open>one of the two \<^verbatim>\<open>if (brushNight)\<close> / \<^verbatim>\<open>if (floss)\<close> blocks\<close>
  "addJan20Entry taskId fixId s =
     (case find (\<lambda>t. r_id t = taskId) (recurringTasks s) of
        None \<Rightarrow> s
      | Some task \<Rightarrow>
          (let exists = list_ex (\<lambda>h. t_id h = fixId) (completedHistory s)
           in if \<not> exists
              then s\<lparr>completedHistory := completedHistory s @ [jan20Entry fixId task]\<rparr>
              else s))"

definition completionOf :: "AppData \<Rightarrow> string option \<Rightarrow> string option" where
  \<comment> \<open>\<^verbatim>\<open>recurringCompletions[h.recurringId]\<close>: a missing \<^verbatim>\<open>recurringId\<close> is the
      property key \<^verbatim>\<open>undefined\<close>\<close>
  "completionOf s rid =
     recurringCompletions s (case rid of None \<Rightarrow> ''undefined'' | Some r \<Rightarrow> r)"

definition keepHistoryEntry :: "AppData \<Rightarrow> string \<Rightarrow> Task \<Rightarrow> bool" where
  \<comment> \<open>the filter that drops the recurring entries of today that the completion map does
      not know\<close>
  "keepHistoryEntry s today h =
     (case t_completedAt h of
        None \<Rightarrow> True
      | Some completedAt \<Rightarrow>
          if \<not> t_isRecurring h then True
          else if hDate completedAt = today then
            (if falsy (completionOf s (t_recurringId h)) then False else True)
          else True)"

definition hasHistoryEntry :: "AppData \<Rightarrow> string \<Rightarrow> string \<Rightarrow> bool" where
  "hasHistoryEntry s today taskId = list_ex (isTodaysEntryOf taskId today) (completedHistory s)"

text \<open>
  \<open>runMigrationsAndCleanup\<close> is a sequence of blocks, each under its own comment in the
  script; they are defined one by one and composed in the script's order. The first
  block, which creates top-level fields that a stored document lacks, has nothing to do on
  a record that has every field.
\<close>

definition migrateCompletedTasks :: "AppData \<Rightarrow> AppData" where
  \<comment> \<open>\<^verbatim>\<open>// Migrate completed tasks\<close>\<close>
  "migrateCompletedTasks s =
     (let completedInTasks = filter t_completed (tasks s)
      in if length completedInTasks > 0
         then s\<lparr>completedHistory := completedInTasks @ completedHistory s,
                tasks := filter (\<lambda>t. \<not> t_completed t) (tasks s)\<rparr>
         else s)"

definition recalculateEconomy :: "AppData \<Rightarrow> AppData" where
  \<comment> \<open>\<^verbatim>\<open>// RECALCULATE ECONOMY ONCE\<close>\<close>
  "recalculateEconomy s =
     (if \<not> economy_recalc_2026_01 (stats s) then
        (let impliedSpending = js_sub (totalCoinsEarned (stats s)) (currentBalance (stats s));
             trueTotal = trueTotalEarned (completedHistory s)
         in s\<lparr>stats := (stats s)
                 \<lparr>totalCoinsEarned := Num trueTotal,
                  currentBalance := js_sub (Num trueTotal) impliedSpending,
                  economy_recalc_2026_01 := True\<rparr>\<rparr>)
      else s)"

definition weekendSaleRefund :: "AppData \<Rightarrow> AppData" where
  \<comment> \<open>\<^verbatim>\<open>// One-time refund for weekend sale implementation\<close>\<close>
  "weekendSaleRefund s =
     (if \<not> weekend_sale_refund_2026_01_18 (stats s) then
        (let refundAmount = 36
         in s\<lparr>stats := (stats s)
                 \<lparr>currentBalance := js_add (currentBalance (stats s)) (Num refundAmount),
                  weekend_sale_refund_2026_01_18 := True\<rparr>\<rparr>)
      else s)"

definition jan20MissingTasksFix :: "AppData \<Rightarrow> AppData" where
  \<comment> \<open>\<^verbatim>\<open>// One-time fix V2: Add missing Jan 20 completions\<close>; the 10 coins are credited
      whether or not an entry was added\<close>
  "jan20MissingTasksFix s =
     (if \<not> jan20_missing_tasks_fix_v2 (stats s) then
        (let s1 = addJan20Entry ''brush_night'' ''fix_brush_night_jan20'' s;
             s2 = addJan20Entry ''floss'' ''fix_floss_jan20'' s1
         in s2\<lparr>stats := (stats s2)
                 \<lparr>currentBalance := js_add (currentBalance (stats s2)) (Num 10),
                  totalCoinsEarned := js_add (totalCoinsEarned (stats s2)) (Num 10),
                  jan20_missing_tasks_fix_v2 := True\<rparr>\<rparr>)
      else s)"

definition removeZombieHistory :: "string \<Rightarrow> AppData \<Rightarrow> AppData" where
  \<comment> \<open>\<^verbatim>\<open>// Filter OUT zombie tasks\<close>\<close>
  "removeZombieHistory today s =
     s\<lparr>completedHistory := filter (keepHistoryEntry s today) (completedHistory s)\<rparr>"

definition removeOrphanedCompletions :: "string \<Rightarrow> AppData \<Rightarrow> AppData" where
  \<comment> \<open>\<^verbatim>\<open>// REVERSE Cleanup\<close>: the loop deletes every key recorded for today that has no
      history entry of today\<close>
  "removeOrphanedCompletions today s =
     s\<lparr>recurringCompletions :=
         (\<lambda>taskId. if recurringCompletions s taskId = Some today
                       \<and> \<not> hasHistoryEntry s today taskId
                    then None else recurringCompletions s taskId)\<rparr>"

definition removeStaleCompletions :: "string \<Rightarrow> AppData \<Rightarrow> AppData" where
  \<comment> \<open>\<^verbatim>\<open>// Also remove stale completions from map (different day)\<close>\<close>
  "removeStaleCompletions today s =
     s\<lparr>recurringCompletions :=
         (\<lambda>taskId. if recurringCompletions s taskId \<noteq> Some today
                    then None else recurringCompletions s taskId)\<rparr>"

definition runMigrationsAndCleanup :: "Time \<Rightarrow> AppData \<Rightarrow> AppData" where
  "runMigrationsAndCleanup now s0 =
     (let s1 = migrateCompletedTasks s0;
          today = getTodayDateString now;
          s2 = recalculateEconomy s1;
          s3 = weekendSaleRefund s2;
          s4 = jan20MissingTasksFix s3;
          s5 = removeZombieHistory today s4;
          s6 = removeOrphanedCompletions today s5;
          s7 = removeStaleCompletions today s6
      in s7)"

fun startsWith :: "string \<Rightarrow> string \<Rightarrow> bool" where
  "startsWith xs [] = True"
| "startsWith [] (p # ps) = False"
| "startsWith (x # xs) (p # ps) = (x = p \<and> startsWith xs ps)"

fun includes_str :: "string \<Rightarrow> string \<Rightarrow> bool" where
  "includes_str [] p = (p = [])"
| "includes_str (x # xs) p = (startsWith (x # xs) p \<or> includes_str xs p)"

datatype BackfillTarget = ExactId string | TitleContains string

definition tasksToFind :: "BackfillTarget list" where
  "tasksToFind = [ExactId ''brush_night'', ExactId ''floss'', TitleContains ''Job Applications'']"

definition backfillDate :: Time where
  \<comment> \<open>\<^verbatim>\<open>new Date('2026-01-31T23:00:00')\<close>, a local time\<close>
  "backfillDate = 1769900400000"

definition backfillOne :: "Time \<Rightarrow> string \<Rightarrow> BackfillTarget \<Rightarrow> AppData \<Rightarrow> AppData" where
  \<comment> \<open>the body of \<^verbatim>\<open>tasksToFind.forEach\<close>; \<open>suffix\<close> is this round's
      \<^verbatim>\<open>Math.random().toString()\<close>\<close>
  "backfillOne now suffix target s =
     (let backfillDateStr = getDateString backfillDate;
          found =
            (case target of
               ExactId ident \<Rightarrow> find (\<lambda>t. r_id t = ident) (recurringTasks s)
             | TitleContains title \<Rightarrow>
                 find (\<lambda>t. r_title t \<noteq> []
                            \<and> includes_str (map toLowerCase (r_title t)) (map toLowerCase title))
                   (recurringTasks s))
      in case found of
           None \<Rightarrow> s
         | Some task \<Rightarrow>
             (let alreadyDone =
                    list_ex (\<lambda>h. case t_completedAt h of
                                   None \<Rightarrow> False
                                 | Some c \<Rightarrow> hDate c = backfillDateStr
                                            \<and> t_recurringId h = Some (r_id task))
                      (completedHistory s)
              in if \<not> alreadyDone then
                   (let coins = (case DIFFICULTIES (r_difficulty task) of
                                   None \<Rightarrow> 25
                                 | Some c \<Rightarrow> c);
                        entry =
                          \<lparr>t_id = String (dateNow now) @ suffix, t_title = r_title task,
                           t_notes = [], t_difficulty = r_difficulty task, t_subtasks = [],
                           t_distributeCoins = False, t_createdAt = None, t_expiresAt = None,
                           t_completed = False, t_completedAt = Some backfillDate,
                           t_isRecurring = True, t_recurringId = Some (r_id task),
                           t_coins = Some coins\<rparr>;
                        st = addCoins (Num coins) (stats s);
                        diffKey = counterKey (r_difficulty task)
                    in s\<lparr>completedHistory := completedHistory s @ [entry],
                          stats := (case statsCounter st diffKey of
                                      None \<Rightarrow> st
                                    | Some n \<Rightarrow> setStatsCounter st diffKey (n + 1))\<rparr>)
                 else s))"

definition runBackfillJan31 :: "Time \<Rightarrow> (nat \<Rightarrow> string) \<Rightarrow> World \<Rightarrow> World" where
  "runBackfillJan31 now rand w =
     (if backfill_jan31_v1 w then w
      else
        w\<lparr>appData :=
             foldl (\<lambda>s (k, target). backfillOne now (rand k) target s) (appData w)
               (zip [0 ..< length tasksToFind] tasksToFind),
           backfill_jan31_v1 := True\<rparr>)"

section \<open>Sequences of operations\<close>

text \<open>
  Every operation above as one action on the world. A call that throws leaves its partial
  writes in memory, so the next action starts from the state the outcome carries.
\<close>

datatype Action =
    SaveNewTask Time "nat \<Rightarrow> string" TaskForm
  | SaveNewReward Time RewardForm
  | AddPresets Time
  | ToggleTask Time string
  | UncompleteTask string
  | ToggleRecurringTask Time string
  | ToggleSubtask Time string string string
  | DeleteTask string
  | DeleteRecurringTask string
  | CleanupExpiredTasks Time
  | RunMigrationsAndCleanup Time
  | RunBackfillJan31 Time "nat \<Rightarrow> string"
  | OpenShopClaimModal Time string
  | OpenClaimModal string
  | CloseClaimModal
  | ConfirmClaimReward Time

definition onData :: "(AppData \<Rightarrow> AppData) \<Rightarrow> World \<Rightarrow> World" where
  "onData f w = w\<lparr>appData := f (appData w)\<rparr>"

fun perform :: "Action \<Rightarrow> World \<Rightarrow> World" where
  "perform (SaveNewTask now rand form) w = onData (saveNewTask now rand form) w"
| "perform (SaveNewReward now form) w = onData (saveNewReward now form) w"
| "perform (AddPresets now) w = onData (addPresets now) w"
| "perform (ToggleTask now ident) w = onData (\<lambda>s. state_of (toggleTask now ident s)) w"
| "perform (UncompleteTask ident) w = onData (\<lambda>s. state_of (uncompleteTask ident s)) w"
| "perform (ToggleRecurringTask now ident) w =
     onData (\<lambda>s. state_of (toggleRecurringTask now ident s)) w"
| "perform (ToggleSubtask now parentId subtaskId type) w =
     onData (\<lambda>s. state_of (toggleSubtask now parentId subtaskId type s)) w"
| "perform (DeleteTask ident) w = onData (deleteTask ident) w"
| "perform (DeleteRecurringTask ident) w = onData (deleteRecurringTask ident) w"
| "perform (CleanupExpiredTasks now) w = onData (cleanupExpiredTasks now) w"
| "perform (RunMigrationsAndCleanup now) w = onData (runMigrationsAndCleanup now) w"
| "perform (RunBackfillJan31 now rand) w = runBackfillJan31 now rand w"
| "perform (OpenShopClaimModal now itemId) w = openShopClaimModal now itemId w"
| "perform (OpenClaimModal ident) w = openClaimModal ident w"
| "perform CloseClaimModal w = closeClaimModal w"
| "perform (ConfirmClaimReward now) w = confirmClaimReward now w"

text \<open>
  The price an action pays: what \<open>confirmClaimReward\<close> debits when it does not abort, and
  nothing for any other action. \<open>run\<close> performs a sequence of actions and keeps, beside
  the world, the sum of the prices paid.
\<close>

definition pricePaid :: "Action \<Rightarrow> World \<Rightarrow> int" where
  "pricePaid a w =
     (case a of
        ConfirmClaimReward now \<Rightarrow>
          (case currentShopItemToClaim w of
             Some (item, price) \<Rightarrow>
               if js_lt (currentBalance (stats (appData w))) (Num price) then 0 else price
           | None \<Rightarrow>
               (case currentRewardToClaim w of
                  None \<Rightarrow> 0
                | Some i \<Rightarrow>
                    if i < length (rewards (appData w)) then rw_cost (rewards (appData w) ! i)
                    else 0))
      | _ \<Rightarrow> 0)"

fun run :: "Action list \<Rightarrow> World \<times> int \<Rightarrow> World \<times> int" where
  "run [] ws = ws"
| "run (a # as) (w, spent) = run as (perform a w, spent + pricePaid a w)"

section \<open>Notions used to state the properties\<close>

definition entriesOn :: "string \<Rightarrow> string \<Rightarrow> AppData \<Rightarrow> Task list" where
  \<comment> \<open>the history entries that carry the recurring id and fall on the app-date\<close>
  "entriesOn ident day s = filter (isTodaysEntryOf ident day) (completedHistory s)"

definition recurringEntriesOn :: "string \<Rightarrow> string \<Rightarrow> AppData \<Rightarrow> Task list" where
  \<comment> \<open>those of them that are marked \<^verbatim>\<open>isRecurring\<close>\<close>
  "recurringEntriesOn ident day s =
     filter (\<lambda>h. t_isRecurring h \<and> isTodaysEntryOf ident day h) (completedHistory s)"

definition historyMatchesMap :: "string \<Rightarrow> string \<Rightarrow> AppData \<Rightarrow> bool" where
  \<comment> \<open>at most one entry of the id on the app-date, and none unless the completion map
      records the id as done on that date\<close>
  "historyMatchesMap ident day s =
     (length (entriesOn ident day s) \<le> 1 \<and>
      (entriesOn ident day s \<noteq> [] \<longrightarrow> recurringCompletions s ident = Some day))"

definition isRecurringToggleOn :: "string \<Rightarrow> Action \<Rightarrow> bool" where
  \<comment> \<open>a toggle of some recurring task, by its checkbox or through one of its subtasks,
      at a clock reading of the app-date\<close>
  "isRecurringToggleOn day a =
     (case a of
        ToggleRecurringTask now ident \<Rightarrow> getTodayDateString now = day
      | ToggleSubtask now parentId subtaskId type \<Rightarrow>
          type = ''recurring'' \<and> getTodayDateString now = day
      | _ \<Rightarrow> False)"

definition refundGiven :: "Stats \<Rightarrow> int" where
  \<comment> \<open>the coins credited by the one-time weekend-sale refund, once it has been applied\<close>
  "refundGiven st = (if weekend_sale_refund_2026_01_18 st then 36 else 0)"

fun exceedsBy :: "jsnum \<Rightarrow> jsnum \<Rightarrow> int \<Rightarrow> bool" where
  \<comment> \<open>unless the balance is NaN: the total is a number and exceeds the balance by \<open>d\<close>\<close>
  "exceedsBy t NaN d = True"
| "exceedsBy NaN (Num b) d = False"
| "exceedsBy (Num t) (Num b) d = (t - b = d)"

definition economyHolds :: "Stats \<Rightarrow> int \<Rightarrow> bool" where
  \<comment> \<open>unless the balance is NaN: the total earned is a number, and it exceeds the balance
      by the coins spent less the refund\<close>
  "economyHolds st spent =
     exceedsBy (totalCoinsEarned st) (currentBalance st) (spent - refundGiven st)"

section \<open>Consistency analytics\<close>



definition activeTasksOnDay :: "(Time \<Rightarrow> int) \<Rightarrow> AppData \<Rightarrow> Time \<Rightarrow> RecurringTask list" where
  "activeTasksOnDay zone s date = filter (\<lambda>task. isTaskActiveOnDate zone task date) (recurringTasks s)"

definition completedOnDay :: "Task list \<Rightarrow> string list \<Rightarrow> string \<Rightarrow> string list" where
  \<comment> \<open>the \<^verbatim>\<open>Set\<close> filled by \<^verbatim>\<open>recurringHistory.forEach\<close>, as the list of its members in
      insertion order\<close>
  "completedOnDay recurringHistory activeTaskIds dateStr =
     foldl (\<lambda>acc t.
              case t_completedAt t of
                None \<Rightarrow> acc
              | Some c \<Rightarrow>
                  (case t_recurringId t of
                     None \<Rightarrow> acc
                   | Some rid \<Rightarrow>
                       if hDate c = dateStr \<and> rid \<noteq> [] \<and> rid \<in> set activeTaskIds
                       then (if rid \<in> set acc then acc else acc @ [rid])
                       else acc))
       [] recurringHistory"

definition rateOfDay :: "(Time \<Rightarrow> int) \<Rightarrow> AppData \<Rightarrow> Time \<Rightarrow> real" where
  \<comment> \<open>\<^verbatim>\<open>(completedOnDay.size / activeTasksOnDay.length) * 100\<close> for a date\<close>
  "rateOfDay zone s date =
     (let recurringHistory = filter t_isRecurring (completedHistory s);
          dateStr = getDateString date;
          activeTasks = activeTasksOnDay zone s date;
          activeTaskIds = map r_id activeTasks;
          completed = completedOnDay recurringHistory activeTaskIds dateStr
      in real (length completed) / real (length activeTasks) * 100)"

datatype Bucket =
    DayBucket string real nat nat "string list" "string list"
  | PeriodBucket string real nat











text \<open>
  The wording of the specification, to compare the loops with: a day counts when it lies
  between first use and now and at least one recurring task is active on it; a period's
  rate is the plain average of the rates of the days that count.
\<close>

definition scheduledDays :: "(Time \<Rightarrow> int) \<Rightarrow> Time \<Rightarrow> Time \<Rightarrow> AppData \<Rightarrow> Time list \<Rightarrow> Time list" where
  "scheduledDays zone firstUse now s dates =
     filter (\<lambda>date. firstUse \<le> date \<and> date \<le> now \<and> activeTasksOnDay zone s date \<noteq> []) dates"

definition average :: "real list \<Rightarrow> real" where
  "average rs = sum_list rs / real (length rs)"

definition periodBuckets :: "(Time \<Rightarrow> int) \<Rightarrow> Time \<Rightarrow> Time \<Rightarrow> AppData \<Rightarrow> (string \<times> Time list) list \<Rightarrow> Bucket list" where
  \<comment> \<open>one bucket for each labelled period that has a day that counts\<close>
  "periodBuckets zone firstUse now s periods =
     concat (map (\<lambda>(label, dates).
                    (let days = scheduledDays zone firstUse now s dates
                     in if days = [] then []
                        else [PeriodBucket label (average (map (rateOfDay zone s) days))
                                (length days)]))
               periods)"










section \<open>Example data\<close>

definition utcZone :: "Time \<Rightarrow> int" where
  \<comment> \<open>a zone with no offset\<close>
  "utcZone t = 0"



definition exampleDaily :: RecurringTask where
  "exampleDaily = \<lparr>r_id = ''custom_1768788000000'', r_title = ''Stretch'', r_notes = [],
     r_difficulty = ''quick'', r_subtasks = [], r_distributeCoins = False,
     r_type = Some ''daily'', r_activeDays = 0, r_breakDays = 0, r_cycleStartDate = None,
     r_createdAt = Some 1768788000000\<rparr>"

definition exampleInterval :: RecurringTask where
  "exampleInterval = \<lparr>r_id = ''custom_1768802400000'', r_title = ''Gym'', r_notes = [],
     r_difficulty = ''hard'', r_subtasks = [], r_distributeCoins = False,
     r_type = Some ''interval'', r_activeDays = 3, r_breakDays = 1,
     r_cycleStartDate = Some 1768802400000, r_createdAt = Some 1768802400000\<rparr>"

definition exampleTask :: Task where
  "exampleTask = \<lparr>t_id = ''1768802400000'', t_title = ''File taxes'', t_notes = [],
     t_difficulty = ''hard'', t_subtasks = [], t_distributeCoins = False,
     t_createdAt = Some 1768802400000, t_expiresAt = None, t_completed = False,
     t_completedAt = None, t_isRecurring = False, t_recurringId = None, t_coins = None\<rparr>"

definition exampleShopItem :: ShopItem where
  "exampleShopItem = \<lparr>si_id = ''custom_1768802400001'', si_name = ''Watch a 30 min episode'',
     si_emoji = ''game'', si_baseCost = 40, si_scaling = Some 10, si_scalingType = Some ''add'',
     si_isCustom = True, si_createdAt = Some 1768802400001\<rparr>"

definition exampleReward :: Reward where
  "exampleReward = \<lparr>rw_id = ''1768802400002'', rw_name = ''Cinema'', rw_description = [],
     rw_category = ''entertainment'', rw_cost = 10, rw_timesClaimed = 0,
     rw_lastClaimedAt = None, rw_createdAt = Some 1768802400002\<rparr>"

definition exampleRewardWorld :: World where
  \<comment> \<open>a fresh world that holds one flat-cost reward and no coins\<close>
  "exampleRewardWorld = initialWorld\<lparr>appData := initialAppData\<lparr>rewards := [exampleReward]\<rparr>\<rparr>"

definition exampleLedger :: AppData where
  \<comment> \<open>two recurring tasks, the daily one completed on 2026-01-19\<close>
  "exampleLedger =
     state_of (toggleRecurringTask 1768810000000 ''custom_1768788000000''
       (initialAppData\<lparr>recurringTasks := [exampleDaily, exampleInterval]\<rparr>))"

definition exampleToggles :: "Action list" where
  \<comment> \<open>the daily task checked, unchecked and checked again on the app-date 2026-01-19, the
      first time at 02:00 of the next calendar day\<close>
  "exampleToggles =
     [ToggleRecurringTask 1768874400000 ''custom_1768788000000'',
      ToggleRecurringTask 1768810000000 ''custom_1768788000000'',
      ToggleRecurringTask 1768820000000 ''custom_1768788000000'']"

definition exampleRecurringWorld :: World where
  "exampleRecurringWorld =
     initialWorld\<lparr>appData := initialAppData\<lparr>recurringTasks := [exampleDaily, exampleInterval]\<rparr>\<rparr>"

definition exampleRewardForm :: RewardForm where
  "exampleRewardForm = \<lparr>g_name = ''Cinema'', g_addToShop = False,
     g_category = ''entertainment'', g_baseCost = 10, g_scalingType = None, g_scaling = None,
     g_description = []\<rparr>"

definition exampleSession :: "Action list" where
  \<comment> \<open>a first load, a reward of cost 10 added and claimed from the refunded coins\<close>
  "exampleSession =
     [RunMigrationsAndCleanup 1768810000000,
      SaveNewReward 1768810000001 exampleRewardForm,
      OpenClaimModal ''1768810000001'',
      ConfirmClaimReward 1768810000002]"

definition exampleFirstLoad :: "Action list" where
  \<comment> \<open>a new user: the presets are added, the saved document comes back and the
      migrations run\<close>
  "exampleFirstLoad = [AddPresets 1768810000000, RunMigrationsAndCleanup 1768810000500]"

definition exampleBackfillLoad :: "Action list" where
  \<comment> \<open>a new user opens the page at 20:00 on 2026-01-31: the presets are added, the
      migrations run and then the backfill\<close>
  "exampleBackfillLoad =
     [AddPresets 1769889600000,
      RunMigrationsAndCleanup 1769889600500,
      RunBackfillJan31 1769889600600 (\<lambda>k. ''0.5'')]"

definition exampleBackfillToggle :: Action where
  \<comment> \<open>a minute later the preset task is checked off\<close>
  "exampleBackfillToggle = ToggleRecurringTask 1769889660000 ''brush_night''"

definition exampleChecklist :: RecurringTask where
  \<comment> \<open>a daily task with two subtasks and no distributed coins\<close>
  "exampleChecklist = \<lparr>r_id = ''custom_1768802400003'', r_title = ''Morning routine'',
     r_notes = [], r_difficulty = ''easy'',
     r_subtasks = [\<lparr>s_id = ''sub_a'', s_title = ''Water'', s_completed = False, s_coins = 0\<rparr>,
                   \<lparr>s_id = ''sub_b'', s_title = ''Walk'', s_completed = False, s_coins = 0\<rparr>],
     r_distributeCoins = False, r_type = Some ''daily'', r_activeDays = 0, r_breakDays = 0,
     r_cycleStartDate = None, r_createdAt = Some 1768802400003\<rparr>"

definition exampleChecklistSession :: "Action list" where
  \<comment> \<open>the task is checked off, then one of its subtasks is ticked\<close>
  "exampleChecklistSession =
     [ToggleRecurringTask 1768810000000 ''custom_1768802400003'',
      ToggleSubtask 1768810060000 ''custom_1768802400003'' ''sub_a'' ''recurring'']"


section \<open>Dates and the recurrence checks\<close>

lemma localDay_addDays: "localDay (addDays t k) = localDay t + k"
  by (simp add: localDay_def addDays_def msPerDay_def)

lemma getHours_addDays: "getHours (addDays t k) = getHours t"
  by (simp add: getHours_def addDays_def msPerDay_def)


lemma localDay_mult: "localDay (n * msPerDay) = n"
  by (simp add: localDay_def msPerDay_def)


lemma getDateString_day: "getDateString t = dateOfDay (localDay t)"
  by (simp add: getDateString_def dateOfDay_def getFullYear_def getMonth_def getDate_def
      localDay_mult)

lemma toLocaleDateString_day: "toLocaleDateString t = longDateOfDay (localDay t)"
  by (simp add: toLocaleDateString_def longDateOfDay_def getFullYear_def getMonth_def
      getDate_def getDay_def localDay_mult)

lemma hDate_appDay: "hDate t = dateOfDay (appDay t)"
  by (simp add: hDate_def getDateString_day appDay_def localDay_addDays)

lemma getTodayDateString_hDate: "getTodayDateString t = hDate t"
  by (simp add: getTodayDateString_def hDate_def getDateString_def Let_def)

lemma getResetDateString_hDate: "getResetDateString t = hDate t"
  by (simp add: getResetDateString_def hDate_def getDateString_def Let_def)

lemma historyGroupDate_appDay: "historyGroupDate (Some t) = longDateOfDay (appDay t)"
  by (simp add: historyGroupDate_def toLocaleDateString_day appDay_def localDay_addDays)



lemma shouldShowIntervalTask_days:
  "shouldShowIntervalTask zone now task =
     (if falsy (r_type task) \<or> r_type task = Some ''daily'' then True
      else
        (case r_cycleStartDate task of
           None \<Rightarrow> True
         | Some s \<Rightarrow>
             if r_type task \<noteq> Some ''interval'' then True
             else js_lt (js_rem (elapsed zone (appDay now * msPerDay + 6 * msPerHour)
                                   (localDay s * msPerDay + 6 * msPerHour) div msPerDay)
                           (r_activeDays task + r_breakDays task))
                    (Num (r_activeDays task))))"
  by (auto simp add: shouldShowIntervalTask_def setHours_def appDay_def localDay_addDays
      Let_def split: option.splits)

lemma isTaskActiveOnDate_days:
  "isTaskActiveOnDate zone task date =
     (if (\<exists>c. r_createdAt task = Some c \<and> localDay date < localDay c) then False
      else if r_type task = Some ''daily'' \<or> falsy (r_type task) then True
      else
        (case r_cycleStartDate task of
           None \<Rightarrow> True
         | Some s \<Rightarrow>
             if r_type task \<noteq> Some ''interval'' then True
             else if elapsed zone (localDay date * msPerDay) (localDay s * msPerDay)
                       div msPerDay < 0 then False
             else js_lt (js_rem (elapsed zone (localDay date * msPerDay)
                                   (localDay s * msPerDay) div msPerDay)
                           (r_activeDays task + r_breakDays task))
                    (Num (r_activeDays task))))"
proof -
  have m: "(1000 * 60 * 60 * 24 :: int) = msPerDay" by (simp add: msPerDay_def)
  have h: "setHours t 0 = localDay t * msPerDay" for t by (simp add: setHours_def)
  have l: "a * msPerDay < b * msPerDay \<longleftrightarrow> a < b" for a b
    by (simp add: msPerDay_def)
  show ?thesis
    unfolding isTaskActiveOnDate_def m
    by (auto simp add: h l Let_def split: option.splits)
qed


text \<open>
  Claim C7. Every bucketing of a timestamp into an app-date (\<open>getTodayDateString\<close> and
  \<open>getResetDateString\<close> for the clock, \<open>hDate\<close> for a stored completion in the toggle, the
  repairs and the analytics, and the grouping key of the history view) gives the previous
  calendar day when the local hour is before 6, and the timestamp's own calendar day from
  06:00 on.
\<close>

theorem app_date_bucketing:
  "(getHours ts < 6 \<longrightarrow>
      getTodayDateString ts = dateOfDay (localDay ts - 1) \<and>
      getResetDateString ts = dateOfDay (localDay ts - 1) \<and>
      hDate ts = dateOfDay (localDay ts - 1) \<and>
      historyGroupDate (Some ts) = longDateOfDay (localDay ts - 1)) \<and>
   (6 \<le> getHours ts \<longrightarrow>
      getTodayDateString ts = dateOfDay (localDay ts) \<and>
      getResetDateString ts = dateOfDay (localDay ts) \<and>
      hDate ts = dateOfDay (localDay ts) \<and>
      historyGroupDate (Some ts) = longDateOfDay (localDay ts))"
  by (simp add: getTodayDateString_hDate getResetDateString_hDate hDate_appDay
      historyGroupDate_appDay appDay_def)

theorem app_date_bucketing_witness:
  "getHours 1768788000000 < 6 \<and>
   getTodayDateString 1768788000000 = ''2026-01-18'' \<and>
   hDate 1768788000000 = ''2026-01-18'' \<and>
   historyGroupDate (Some 1768788000000) = ''Sunday, January 18, 2026'' \<and>
   6 \<le> getHours 1768802400000 \<and>
   getTodayDateString 1768802400000 = ''2026-01-19'' \<and>
   hDate 1768802400000 = ''2026-01-19'' \<and>
   historyGroupDate (Some 1768802400000) = ''Monday, January 19, 2026''"
proof -
  have h1: "getHours 1768788000000 < 6" by code_simp
  have h2: "6 \<le> getHours 1768802400000" by code_simp
  have d1: "localDay 1768788000000 - 1 = 20471" by code_simp
  have d2: "localDay 1768802400000 = 20472" by code_simp
  have s1: "dateOfDay 20471 = ''2026-01-18''" by code_simp
  have s2: "dateOfDay 20472 = ''2026-01-19''" by code_simp
  have l1: "longDateOfDay 20471 = ''Sunday, January 18, 2026''" by code_simp
  have l2: "longDateOfDay 20472 = ''Monday, January 19, 2026''" by code_simp
  from app_date_bucketing [of 1768788000000] app_date_bucketing [of 1768802400000]
  show ?thesis
    using h1 h2 by (simp only: d1 d2 s1 s2 l1 l2 simp_thms)
qed


text \<open>
  Claim C8, amended. For a task of type daily or with no type, \<open>isTaskActiveOnDate\<close>
  reports the task active exactly when the calendar day queried is not before the calendar
  day of \<open>createdAt\<close> (midnight to midnight, without the 06:00 shift), or when there is no
  \<open>createdAt\<close>; the check for today, \<open>shouldShowIntervalTask\<close>, reports it active at every
  clock reading and does not read \<open>createdAt\<close>.
\<close>

theorem daily_task_activity:
  "falsy (r_type task) \<or> r_type task = Some ''daily'' \<Longrightarrow>
     (isTaskActiveOnDate zone task date \<longleftrightarrow>
        (\<forall>c. r_createdAt task = Some c \<longrightarrow> localDay c \<le> localDay date)) \<and>
     shouldShowIntervalTask zone now task"
  by (auto simp add: isTaskActiveOnDate_days shouldShowIntervalTask_days)

theorem daily_task_activity_witness:
  "isTaskActiveOnDate utcZone exampleDaily 1768802400000 \<and>
   \<not> isTaskActiveOnDate utcZone exampleDaily 1768737600000 \<and>
   shouldShowIntervalTask utcZone 1768802400000 exampleDaily"
proof -
  have t: "falsy (r_type exampleDaily) \<or> r_type exampleDaily = Some ''daily''"
    by (simp add: exampleDaily_def)
  have c: "r_createdAt exampleDaily = Some 1768788000000"
    by (simp add: exampleDaily_def)
  have d: "localDay 1768788000000 = 20472" "localDay 1768802400000 = 20472"
    "localDay 1768737600000 = 20471"
    by code_simp+
  show ?thesis
    using daily_task_activity [OF t, of utcZone 1768802400000 1768802400000]
      daily_task_activity [OF t, of utcZone 1768737600000 1768802400000]
    by (simp add: c d)
qed

text \<open>
  The claim as stated fails: a daily task created at 02:00 on 2026-01-19 has the app-date
  2026-01-18, yet the analytics check reports it inactive on 2026-01-18; and the check for
  today reports it active on 2026-01-17, before it was created.
\<close>

theorem daily_task_app_date_counterexample:
  "r_type exampleDaily = Some ''daily'' \<and>
   r_createdAt exampleDaily = Some 1768788000000 \<and>
   hDate 1768788000000 = ''2026-01-18'' \<and>
   getDateString 1768737600000 = ''2026-01-18'' \<and>
   \<not> isTaskActiveOnDate utcZone exampleDaily 1768737600000 \<and>
   getTodayDateString 1768651200000 = ''2026-01-17'' \<and>
   shouldShowIntervalTask utcZone 1768651200000 exampleDaily"
  by code_simp




section \<open>The completion round trip and deletion\<close>

lemma findIndex_Some:
  "findIndex P xs = Some i \<Longrightarrow> i < length xs \<and> P (xs ! i)"
proof (induction xs arbitrary: i)
  case Nil
  then show ?case by simp
next
  case (Cons x xs)
  then show ?case by (auto split: if_splits)
qed

lemma splice1_0: "splice1 0 (x # xs) = xs"
  by (simp add: splice1_def)

lemma DIFFICULTIES_Some:
  "DIFFICULTIES d = Some c \<Longrightarrow> d \<in> {''quick'', ''easy'', ''medium'', ''hard'', ''epic''}"
  by (simp add: DIFFICULTIES_def split: if_splits)

lemma counter_round_trip:
  assumes "DIFFICULTIES d = Some c"
  shows "decrementTaskCount d (incrementTaskCount d st) = st"
proof -
  from DIFFICULTIES_Some [OF assms]
  consider "d = ''quick''" | "d = ''easy''" | "d = ''medium''" | "d = ''hard''" | "d = ''epic''"
    by auto
  then show ?thesis
    by cases
      (simp_all add: decrementTaskCount_def incrementTaskCount_def counterKey_def
        toUpperCase_def statsCounter_def setStatsCounter_def)
qed

lemma js_add_sub: "js_sub (js_add a (Num c)) (Num c) = a"
  by (cases a) simp_all

lemma coins_round_trip: "removeCoins (Num c) (addCoins (Num c) st) = st"
  by (simp add: removeCoins_def addCoins_def js_add_sub)

lemma incrementTaskCount_coins:
  "totalCoinsEarned (incrementTaskCount d st) = totalCoinsEarned st"
  "currentBalance (incrementTaskCount d st) = currentBalance st"
  by (simp_all add: incrementTaskCount_def setStatsCounter_def Let_def split: option.splits)

lemma removeCoins_incrementTaskCount:
  "removeCoins c (incrementTaskCount d st) = incrementTaskCount d (removeCoins c st)"
  by (simp add: removeCoins_def incrementTaskCount_def statsCounter_def setStatsCounter_def
      Let_def)

text \<open>
  Claim C1. When \<open>toggleTask\<close> completes the first active task carrying an id (a task of
  one of the five tiers) and \<open>uncompleteTask\<close> is then called with the same id, both calls
  return, the balance, the total earned and the tier's counter (indeed all statistics) and
  the history are as before the pair of calls, and the task is back in the active list, at
  its head, with \<open>completed\<close> false and no \<open>completedAt\<close>.
\<close>

theorem complete_uncomplete_round_trip:
  assumes "findIndex (\<lambda>t. t_id t = ident) (tasks s) = Some i"
    and "DIFFICULTIES (t_difficulty (tasks s ! i)) = Some coins"
  shows "\<exists>s1 s2. toggleTask now ident s = Returned s1 \<and>
           uncompleteTask ident s1 = Returned s2 \<and>
           completedHistory s1 =
             (tasks s ! i)\<lparr>t_completed := True, t_completedAt := Some now\<rparr>
               # completedHistory s \<and>
           currentBalance (stats s2) = currentBalance (stats s) \<and>
           totalCoinsEarned (stats s2) = totalCoinsEarned (stats s) \<and>
           statsCounter (stats s2) (counterKey (t_difficulty (tasks s ! i)))
             = statsCounter (stats s) (counterKey (t_difficulty (tasks s ! i))) \<and>
           stats s2 = stats s \<and>
           completedHistory s2 = completedHistory s \<and>
           tasks s2 = (tasks s ! i)\<lparr>t_completed := False, t_completedAt := None\<rparr>
                        # splice1 i (tasks s) \<and>
           s2 = s\<lparr>tasks := tasks s2\<rparr>"
proof -
  from findIndex_Some [OF assms(1)] have i: "i < length (tasks s)" "t_id (tasks s ! i) = ident"
    by simp_all
  define task where "task = (tasks s ! i)\<lparr>t_completed := True, t_completedAt := Some now\<rparr>"
  define s1 where "s1 = s\<lparr>stats := incrementTaskCount (t_difficulty task)
      (addCoins (Num coins) (stats s)), completedHistory := task # completedHistory s,
      tasks := splice1 i (tasks s)\<rparr>"
  define s2 where "s2 = s\<lparr>tasks := (tasks s ! i)\<lparr>t_completed := False, t_completedAt := None\<rparr>
      # splice1 i (tasks s)\<rparr>"
  have d: "DIFFICULTIES (t_difficulty task) = Some coins"
    using assms(2) by (simp add: task_def)
  have t1: "toggleTask now ident s = Returned s1"
    using assms(1) d by (simp add: toggleTask_def s1_def task_def Let_def)
  have f: "findIndex (\<lambda>t. t_id t = ident) (completedHistory s1) = Some 0"
    using i by (simp add: s1_def task_def)
  have h: "completedHistory s1 ! 0 = task" by (simp add: s1_def)
  have st: "decrementTaskCount (t_difficulty task) (removeCoins (Num coins) (stats s1))
      = stats s"
    by (simp add: s1_def removeCoins_incrementTaskCount coins_round_trip
        counter_round_trip [OF d])
  have t2: "uncompleteTask ident s1 = Returned s2"
    using d by (simp add: uncompleteTask_def f h st Let_def)
      (simp add: s1_def s2_def task_def splice1_0)
  have "completedHistory s1 = task # completedHistory s" by (simp add: s1_def)
  moreover have "stats s2 = stats s" "completedHistory s2 = completedHistory s"
    "tasks s2 = (tasks s ! i)\<lparr>t_completed := False, t_completedAt := None\<rparr>
       # splice1 i (tasks s)" "s2 = s\<lparr>tasks := tasks s2\<rparr>"
    by (simp_all add: s2_def)
  ultimately show ?thesis
    using t1 t2 by (simp add: task_def)
qed

theorem complete_uncomplete_round_trip_witness:
  "\<exists>s1 s2. toggleTask 1768810000000 ''1768802400000'' (initialAppData\<lparr>tasks := [exampleTask]\<rparr>)
       = Returned s1 \<and>
     uncompleteTask ''1768802400000'' s1 = Returned s2 \<and>
     completedHistory s1 = [exampleTask\<lparr>t_completed := True,
                                         t_completedAt := Some 1768810000000\<rparr>] \<and>
     currentBalance (stats s2) = Num 0 \<and>
     totalCoinsEarned (stats s2) = Num 0 \<and>
     statsCounter (stats s2) ''tasksCompletedHard'' = Some 0 \<and>
     completedHistory s2 = [] \<and>
     tasks s2 = [exampleTask]"
proof -
  let ?s = "initialAppData\<lparr>tasks := [exampleTask]\<rparr>"
  have a: "findIndex (\<lambda>t. t_id t = ''1768802400000'') (tasks ?s) = Some 0"
    by (simp add: exampleTask_def)
  have b: "DIFFICULTIES (t_difficulty (tasks ?s ! 0)) = Some 50"
    by (simp add: exampleTask_def DIFFICULTIES_def)
  have k: "counterKey (t_difficulty exampleTask) = ''tasksCompletedHard''"
    by (simp add: exampleTask_def counterKey_def toUpperCase_def)
  have e: "exampleTask\<lparr>t_completed := False, t_completedAt := None\<rparr> = exampleTask"
    by (simp add: exampleTask_def)
  from complete_uncomplete_round_trip [OF a b, of 1768810000000]
  obtain s1 s2 where r: "toggleTask 1768810000000 ''1768802400000'' ?s = Returned s1"
    "uncompleteTask ''1768802400000'' s1 = Returned s2"
    "completedHistory s1 = (tasks ?s ! 0)\<lparr>t_completed := True,
       t_completedAt := Some 1768810000000\<rparr> # completedHistory ?s"
    "stats s2 = stats ?s" "completedHistory s2 = completedHistory ?s"
    "tasks s2 = (tasks ?s ! 0)\<lparr>t_completed := False, t_completedAt := None\<rparr>
       # splice1 0 (tasks ?s)"
    by blast
  have "currentBalance (stats s2) = Num 0" "totalCoinsEarned (stats s2) = Num 0"
    "statsCounter (stats s2) ''tasksCompletedHard'' = Some 0" "completedHistory s2 = []"
    "tasks s2 = [exampleTask]"
    "completedHistory s1 = [exampleTask\<lparr>t_completed := True,
                                         t_completedAt := Some 1768810000000\<rparr>]"
    using r(3-6) by (simp_all add: initialAppData_def statsCounter_def e splice1_def)
  with r(1,2) show ?thesis by blast
qed

text \<open>
  Claim C10. \<open>deleteRecurringTask\<close> removes every definition with the id from
  \<open>recurringTasks\<close> and the id's entry from \<open>recurringCompletions\<close>; other definitions and
  other entries stay, and the history, the statistics (total earned, balance, every
  counter) and everything else in the snapshot are unchanged.
\<close>

theorem deleteRecurringTask_frame:
  "recurringTasks (deleteRecurringTask ident s) = filter (\<lambda>t. r_id t \<noteq> ident) (recurringTasks s) \<and>
   find (\<lambda>t. r_id t = ident) (recurringTasks (deleteRecurringTask ident s)) = None \<and>
   recurringCompletions (deleteRecurringTask ident s) ident = None \<and>
   (\<forall>k. k \<noteq> ident \<longrightarrow>
      recurringCompletions (deleteRecurringTask ident s) k = recurringCompletions s k) \<and>
   completedHistory (deleteRecurringTask ident s) = completedHistory s \<and>
   stats (deleteRecurringTask ident s) = stats s \<and>
   totalCoinsEarned (stats (deleteRecurringTask ident s)) = totalCoinsEarned (stats s) \<and>
   currentBalance (stats (deleteRecurringTask ident s)) = currentBalance (stats s) \<and>
   (\<forall>key. statsCounter (stats (deleteRecurringTask ident s)) key = statsCounter (stats s) key) \<and>
   tasks (deleteRecurringTask ident s) = tasks s \<and>
   rewards (deleteRecurringTask ident s) = rewards s \<and>
   customShopItems (deleteRecurringTask ident s) = customShopItems s \<and>
   shopPurchases (deleteRecurringTask ident s) = shopPurchases s"
  by (simp add: deleteRecurringTask_def find_None_iff)


theorem deleteRecurringTask_frame_witness:
  "recurringTasks (deleteRecurringTask ''custom_1768788000000'' exampleLedger)
     = [exampleInterval] \<and>
   recurringCompletions exampleLedger ''custom_1768788000000'' = Some ''2026-01-19'' \<and>
   recurringCompletions (deleteRecurringTask ''custom_1768788000000'' exampleLedger)
     ''custom_1768788000000'' = None \<and>
   length (completedHistory (deleteRecurringTask ''custom_1768788000000'' exampleLedger)) = 1 \<and>
   totalCoinsEarned (stats (deleteRecurringTask ''custom_1768788000000'' exampleLedger))
     = Num 5 \<and>
   currentBalance (stats (deleteRecurringTask ''custom_1768788000000'' exampleLedger))
     = Num 5 \<and>
   statsCounter (stats (deleteRecurringTask ''custom_1768788000000'' exampleLedger))
     ''tasksCompletedQuick'' = Some 1"
proof -
  have t: "getTodayDateString 1768810000000 = ''2026-01-19''" by code_simp
  have e: "exampleLedger =
      initialAppData\<lparr>recurringTasks := [exampleDaily, exampleInterval],
        stats := incrementTaskCount ''quick'' (addCoins (Num 5) (stats initialAppData)),
        recurringCompletions := [''custom_1768788000000'' \<mapsto> ''2026-01-19''],
        completedHistory :=
          [\<lparr>t_id = ''recurring_custom_1768788000000_'' @ String (dateNow 1768810000000),
            t_title = ''Stretch'', t_notes = [], t_difficulty = ''quick'', t_subtasks = [],
            t_distributeCoins = False, t_createdAt = None, t_expiresAt = None,
            t_completed = True, t_completedAt = Some 1768810000000, t_isRecurring = True,
            t_recurringId = Some ''custom_1768788000000'', t_coins = None\<rparr>]\<rparr>"
    by (simp add: exampleLedger_def toggleRecurringTask_def isRecurringCompletedToday_def
        exampleDaily_def exampleInterval_def initialAppData_def DIFFICULTIES_def t)
  have s: "stats exampleLedger
      = incrementTaskCount ''quick'' (addCoins (Num 5) (stats initialAppData))"
    "recurringTasks exampleLedger = [exampleDaily, exampleInterval]"
    "recurringCompletions exampleLedger ''custom_1768788000000'' = Some ''2026-01-19''"
    "length (completedHistory exampleLedger) = 1"
    by (simp_all add: e)
  have c: "totalCoinsEarned (stats exampleLedger) = Num 5"
    "currentBalance (stats exampleLedger) = Num 5"
    "statsCounter (stats exampleLedger) ''tasksCompletedQuick'' = Some 1"
    by (simp_all add: s incrementTaskCount_def addCoins_def counterKey_def toUpperCase_def
        statsCounter_def setStatsCounter_def initialAppData_def)
  have f: "filter (\<lambda>t. r_id t \<noteq> ''custom_1768788000000'') [exampleDaily, exampleInterval]
      = [exampleInterval]"
    by (simp add: exampleDaily_def exampleInterval_def)
  let ?d = "deleteRecurringTask ''custom_1768788000000'' exampleLedger"
  from deleteRecurringTask_frame [of "''custom_1768788000000''" exampleLedger]
  have r: "recurringTasks ?d
      = filter (\<lambda>t. r_id t \<noteq> ''custom_1768788000000'') (recurringTasks exampleLedger)"
    "recurringCompletions ?d ''custom_1768788000000'' = None"
    "completedHistory ?d = completedHistory exampleLedger"
    "stats ?d = stats exampleLedger"
    by blast+
  show ?thesis
    by (simp only: r s(2-4) c f simp_thms)
qed
section \<open>Shop prices and claims: properties\<close>

lemma ceilHalf_40: "ceilHalf 40 = 20"
  by (simp add: ceilHalf_def)

text \<open>
  Claim C5. For an item with base cost 40, scaling 10 and additive scaling, the price for
  purchase counts 0, 1, 2 recorded on the current reset date is 40, 50, 60 when no sale is
  active (and whenever the price is asked without the sale), and 20, 20, 30 while the sale
  is active; an item with no purchase record is priced as count 0.
\<close>

theorem shop_price_add_scaling:
  assumes "si_baseCost item = 40" and "si_scaling item = Some 10"
    and "si_scalingType item = Some ''add''"
  shows "map (\<lambda>n. getShopItemPrice now item True
                  (s\<lparr>shopPurchases := (shopPurchases s)
                       (si_id item \<mapsto> \<lparr>p_count = n, p_lastResetDate = getResetDateString now\<rparr>)\<rparr>))
           [0, 1, 2]
         = (if isWeekendSale now then [20, 20, 30] else [40, 50, 60])
       \<and> map (\<lambda>n. getShopItemPrice now item False
                  (s\<lparr>shopPurchases := (shopPurchases s)
                       (si_id item \<mapsto> \<lparr>p_count = n, p_lastResetDate = getResetDateString now\<rparr>)\<rparr>))
           [0, 1, 2]
         = [40, 50, 60]
       \<and> (shopPurchases s (si_id item) = None \<longrightarrow>
            getShopItemPrice now item True s = (if isWeekendSale now then 20 else 40))"
  using assms by (simp add: getShopItemPrice_def ceilHalf_40 Let_def)

theorem shop_price_add_scaling_witness:
  "\<not> isWeekendSale 1769000000000 \<and>
   map (\<lambda>n. getShopItemPrice 1769000000000 exampleShopItem True
              (initialAppData\<lparr>shopPurchases := (shopPurchases initialAppData)
                 (si_id exampleShopItem \<mapsto>
                    \<lparr>p_count = n, p_lastResetDate = getResetDateString 1769000000000\<rparr>)\<rparr>))
       [0, 1, 2] = [40, 50, 60] \<and>
   isWeekendSale 1768700000000 \<and>
   map (\<lambda>n. getShopItemPrice 1768700000000 exampleShopItem True
              (initialAppData\<lparr>shopPurchases := (shopPurchases initialAppData)
                 (si_id exampleShopItem \<mapsto>
                    \<lparr>p_count = n, p_lastResetDate = getResetDateString 1768700000000\<rparr>)\<rparr>))
       [0, 1, 2] = [20, 20, 30] \<and>
   getShopItemPrice 1768700000000 exampleShopItem True initialAppData = 20"
proof -
  have a: "si_baseCost exampleShopItem = 40" "si_scaling exampleShopItem = Some 10"
    "si_scalingType exampleShopItem = Some ''add''"
    by (simp_all add: exampleShopItem_def)
  have n: "\<not> isWeekendSale 1769000000000" by code_simp
  have y: "isWeekendSale 1768700000000" by code_simp
  have e: "shopPurchases initialAppData (si_id exampleShopItem) = None"
    by (simp add: initialAppData_def)
  show ?thesis
    using shop_price_add_scaling [OF a, of 1769000000000 initialAppData]
      shop_price_add_scaling [OF a, of 1768700000000 initialAppData]
    by (simp only: n y e if_True if_False simp_thms)
qed

text \<open>
  The shop branch of \<open>confirmClaimReward\<close> aborts when the balance is below the price
  taken when the dialog opened, and leaves the snapshot as it was.
\<close>

lemma shop_claim_insufficient:
  assumes "currentShopItemToClaim w = Some (item, price)"
    and "js_lt (currentBalance (stats (appData w))) (Num price)"
  shows "appData (confirmClaimReward now w) = appData w"
  using assms by (simp add: confirmClaimReward_def closeClaimModal_def)

text \<open>
  Claim C3. The branch for a flat-cost reward has no such check. With a balance of 0 and a
  reward that costs 10, \<open>confirmClaimReward\<close> debits the balance to -10, counts the claim
  in \<open>rewardsClaimed\<close> and raises the reward's \<open>timesClaimed\<close> to 1.
\<close>

theorem reward_claim_ignores_balance:
  "currentRewardToClaim (openClaimModal ''1768802400002'' exampleRewardWorld) = Some 0 \<and>
   js_lt (currentBalance (stats (appData exampleRewardWorld))) (Num (rw_cost exampleReward)) \<and>
   currentBalance (stats (appData (confirmClaimReward 1768810000000
       (openClaimModal ''1768802400002'' exampleRewardWorld)))) = Num (- 10) \<and>
   rewardsClaimed (stats (appData (confirmClaimReward 1768810000000
       (openClaimModal ''1768802400002'' exampleRewardWorld)))) = 1 \<and>
   map rw_timesClaimed (rewards (appData (confirmClaimReward 1768810000000
       (openClaimModal ''1768802400002'' exampleRewardWorld)))) = [1]"
  by (simp add: exampleRewardWorld_def exampleReward_def initialWorld_def initialAppData_def
      openClaimModal_def confirmClaimReward_def closeClaimModal_def)

section \<open>One history entry per recurring task and day\<close>

lemma findIndex_None: "findIndex P xs = None \<Longrightarrow> filter P xs = []"
  by (induction xs) (auto split: if_splits)

lemma length_filter_splice1:
  assumes "i < length xs"
  shows "length (filter P (splice1 i xs)) = length (filter P xs) - (if P (xs ! i) then 1 else 0)"
proof -
  have "xs = take i xs @ xs ! i # drop (Suc i) xs"
    using assms by (simp add: id_take_nth_drop)
  then have "filter P xs = filter P (take i xs) @ filter P [xs ! i] @ filter P (drop (Suc i) xs)"
    by (metis append_Cons append_Nil filter_append)
  then show ?thesis
    by (simp add: splice1_def)
qed

lemma hDate_today: "hDate now = getTodayDateString now"
  by (simp add: getTodayDateString_def hDate_def getDateString_def Let_def)


lemma entriesOn_remove_first:
  assumes "historyMatchesMap ident day s"
    and "findIndex (isTodaysEntryOf ident day) (completedHistory s) = Some i"
  shows "filter (isTodaysEntryOf ident day) (splice1 i (completedHistory s)) = []"
proof -
  from findIndex_Some [OF assms(2)]
  have i: "i < length (completedHistory s)" "isTodaysEntryOf ident day (completedHistory s ! i)"
    by simp_all
  have "length (filter (isTodaysEntryOf ident day) (splice1 i (completedHistory s)))
      = length (filter (isTodaysEntryOf ident day) (completedHistory s)) - 1"
    using length_filter_splice1 [OF i(1)] i(2) by simp
  also have "\<dots> = 0"
    using assms(1) by (simp add: historyMatchesMap_def entriesOn_def)
  finally show ?thesis by simp
qed

lemma entriesOn_remove_other:
  assumes "ident' \<noteq> ident"
    and "findIndex (isTodaysEntryOf ident' day') (completedHistory s) = Some i"
  shows "filter (isTodaysEntryOf ident day) (splice1 i (completedHistory s))
      = filter (isTodaysEntryOf ident day) (completedHistory s)"
proof -
  from findIndex_Some [OF assms(2)]
  have i: "i < length (completedHistory s)" "isTodaysEntryOf ident' day' (completedHistory s ! i)"
    by simp_all
  from i(2) assms(1) have n: "\<not> isTodaysEntryOf ident day (completedHistory s ! i)"
    by (auto simp add: isTodaysEntryOf_def split: option.splits if_splits)
  have "completedHistory s = take i (completedHistory s) @ completedHistory s ! i
      # drop (Suc i) (completedHistory s)"
    using i(1) by (simp add: id_take_nth_drop)
  then have "filter (isTodaysEntryOf ident day) (completedHistory s)
      = filter (isTodaysEntryOf ident day) (take i (completedHistory s))
        @ filter (isTodaysEntryOf ident day) [completedHistory s ! i]
        @ filter (isTodaysEntryOf ident day) (drop (Suc i) (completedHistory s))"
    by (metis append_Cons append_Nil filter_append)
  with n show ?thesis by (simp add: splice1_def)
qed

lemma toggleRecurringTask_matches:
  assumes "historyMatchesMap ident day s" and "getTodayDateString now = day"
  shows "historyMatchesMap ident day (state_of (toggleRecurringTask now ident' s))"
proof (cases "find (\<lambda>t. r_id t = ident') (recurringTasks s)")
  case None
  then show ?thesis using assms(1) by (simp add: toggleRecurringTask_def)
next
  case (Some task)
  show ?thesis
  proof (cases "DIFFICULTIES (r_difficulty task)")
    case None
    then show ?thesis using assms(1) Some by (simp add: toggleRecurringTask_def Let_def)
  next
    case (Some coins)
    note c = Some
    show ?thesis
    proof (cases "ident' = ident")
      case True
      show ?thesis
      proof (cases "recurringCompletions s ident = Some day")
        case True
        then show ?thesis
          using \<open>ident' = ident\<close> assms \<open>find _ _ = Some task\<close> c
          by (auto simp add: toggleRecurringTask_def isRecurringCompletedToday_def Let_def
              historyMatchesMap_def entriesOn_def findIndex_None
              entriesOn_remove_first [OF assms(1)] split: option.splits)
      next
        case False
        with assms(1) have "filter (isTodaysEntryOf ident day) (completedHistory s) = []"
          by (auto simp add: historyMatchesMap_def entriesOn_def)
        then show ?thesis
          using \<open>ident' = ident\<close> assms(2) False \<open>find _ _ = Some task\<close> c
          by (simp add: toggleRecurringTask_def isRecurringCompletedToday_def Let_def
              historyMatchesMap_def entriesOn_def isTodaysEntryOf_def hDate_today)
      qed
    next
      case False
      then show ?thesis
        using assms \<open>find _ _ = Some task\<close> c
        by (auto simp add: toggleRecurringTask_def isRecurringCompletedToday_def Let_def
            historyMatchesMap_def entriesOn_def isTodaysEntryOf_def entriesOn_remove_other
            split: option.splits)
    qed
  qed
qed


lemma length_filter_conj: "length (filter (\<lambda>x. Q x \<and> P x) xs) \<le> length (filter P xs)"
  by (induction xs) auto

lemma historyMatchesMap_cong:
  assumes "completedHistory s' = completedHistory s"
    and "recurringCompletions s' = recurringCompletions s"
  shows "historyMatchesMap ident day s' = historyMatchesMap ident day s"
  using assms by (simp add: historyMatchesMap_def entriesOn_def)

lemma remove_entry_matches:
  assumes "historyMatchesMap ident day s"
    and "findIndex (isTodaysEntryOf ident' day) (completedHistory s) = Some i"
  shows "historyMatchesMap ident day
           (s\<lparr>stats := st, completedHistory := splice1 i (completedHistory s)\<rparr>)"
proof (cases "ident' = ident")
  case True
  then show ?thesis
    using entriesOn_remove_first [OF assms(1), of i] assms(2)
    by (simp add: historyMatchesMap_def entriesOn_def)
next
  case False
  then show ?thesis
    using entriesOn_remove_other [OF False assms(2), of day] assms(1)
    by (simp add: historyMatchesMap_def entriesOn_def)
qed

lemma toggleSubtask_recurring_matches:
  assumes "historyMatchesMap ident day s" and "getTodayDateString now = day"
  shows "historyMatchesMap ident day
           (state_of (toggleSubtask now parentId subtaskId ''recurring'' s))"
proof (cases "findIndex (\<lambda>t. r_id t = parentId) (recurringTasks s)")
  case None
  then show ?thesis using assms(1) by (simp add: toggleSubtask_def)
next
  case (Some parent)
  note p = Some
  show ?thesis
  proof (cases "findIndex (\<lambda>x. s_id x = subtaskId) (r_subtasks (recurringTasks s ! parent))")
    case None
    then show ?thesis using assms(1) p by (simp add: toggleSubtask_def Let_def)
  next
    case (Some sub)
    define task0 where "task0 = recurringTasks s ! parent"
    define subtask where
      "subtask = (r_subtasks task0 ! sub)\<lparr>s_completed := \<not> s_completed (r_subtasks task0 ! sub)\<rparr>"
    define task where "task = task0\<lparr>r_subtasks := (r_subtasks task0)[sub := subtask]\<rparr>"
    define s1 where "s1 = s\<lparr>recurringTasks := (recurringTasks s)[parent := task],
      stats := subtaskCoinLogic (r_distributeCoins task) subtask (stats s)\<rparr>"
    have m1: "historyMatchesMap ident day s1"
      using assms(1) by (simp add: s1_def historyMatchesMap_def entriesOn_def)
    have e: "toggleSubtask now parentId subtaskId ''recurring'' s =
        (if list_all s_completed (r_subtasks task) then
           (if \<not> isRecurringCompletedToday now parentId s1
            then toggleRecurringTask now parentId s1 else Returned s1)
         else if isRecurringCompletedToday now parentId s1 then
           (case findIndex (isTodaysEntryOf parentId (getTodayDateString now))
                   (completedHistory s1) of
              None \<Rightarrow> Returned s1
            | Some historyIndex \<Rightarrow>
                Returned
                  (s1\<lparr>stats :=
                        decrementTaskCount (t_difficulty (completedHistory s1 ! historyIndex))
                          (removeCoins (to_number (t_coins (completedHistory s1 ! historyIndex)))
                            (stats s1)),
                      completedHistory := splice1 historyIndex (completedHistory s1)\<rparr>))
         else Returned s1)"
      using p Some
      by (simp add: toggleSubtask_def Let_def s1_def task_def subtask_def task0_def
          isRecurringCompletedToday_def split: option.splits)
    show ?thesis
      unfolding e
      using m1 toggleRecurringTask_matches [OF m1 assms(2)]
        remove_entry_matches [OF m1] assms(2)
      by (auto split: option.splits)
  qed
qed

lemma perform_toggle_matches:
  assumes "historyMatchesMap ident day (appData w)" and "isRecurringToggleOn day a"
  shows "historyMatchesMap ident day (appData (perform a w))"
  using assms toggleRecurringTask_matches toggleSubtask_recurring_matches
  by (cases a) (auto simp add: isRecurringToggleOn_def onData_def)

lemma run_toggles_matches:
  assumes "\<forall>a \<in> set acts. isRecurringToggleOn day a"
    and "historyMatchesMap ident day (appData w)"
  shows "historyMatchesMap ident day (appData (fst (run acts (w, spent))))"
  using assms
proof (induction acts arbitrary: w spent)
  case Nil
  then show ?case by simp
next
  case (Cons a acts)
  then show ?case by (simp add: perform_toggle_matches)
qed

text \<open>
  Take a recurring task id and an app-date, and a state in which the history holds at
  most one entry of the id on that date, and none unless the completion map records the
  id as done on that date (so any state with no such entry yet). After any sequence of
  toggles of recurring tasks at clock readings of that app-date, by the checkbox or
  through a subtask, the history holds at most one entry with \<open>isRecurring\<close> set that
  carries the id and falls on the date.
\<close>

lemma toggles_keep_at_most_one:
  assumes "\<forall>a \<in> set acts. isRecurringToggleOn day a"
    and "historyMatchesMap ident day (appData w)"
  shows "length (recurringEntriesOn ident day (appData (fst (run acts (w, spent))))) \<le> 1"
proof -
  let ?s = "appData (fst (run acts (w, spent)))"
  have "length (recurringEntriesOn ident day ?s) \<le> length (entriesOn ident day ?s)"
    unfolding recurringEntriesOn_def entriesOn_def by (rule length_filter_conj)
  also have "\<dots> \<le> 1"
    using run_toggles_matches [OF assms] by (simp add: historyMatchesMap_def)
  finally show ?thesis .
qed

lemma toggles_keep_at_most_one_example:
  "length (recurringEntriesOn ''custom_1768788000000'' ''2026-01-19''
             (appData (fst (run exampleToggles (exampleRecurringWorld, 0))))) \<le> 1 \<and>
   recurringEntriesOn ''custom_1768788000000'' ''2026-01-19''
     (appData (fst (run exampleToggles (exampleRecurringWorld, 0)))) \<noteq> []"
proof -
  have t: "getTodayDateString 1768874400000 = ''2026-01-19''"
    "getTodayDateString 1768810000000 = ''2026-01-19''"
    "getTodayDateString 1768820000000 = ''2026-01-19''"
    by code_simp+
  have h: "hDate 1768820000000 = ''2026-01-19''" "hDate 1768874400000 = ''2026-01-19''"
    using t by (simp_all add: hDate_today)
  have a: "\<forall>a \<in> set exampleToggles. isRecurringToggleOn ''2026-01-19'' a"
    by (simp add: exampleToggles_def isRecurringToggleOn_def t)
  have m: "historyMatchesMap ''custom_1768788000000'' ''2026-01-19''
      (appData exampleRecurringWorld)"
    by (simp add: historyMatchesMap_def entriesOn_def exampleRecurringWorld_def
        initialWorld_def initialAppData_def)
  have n: "recurringEntriesOn ''custom_1768788000000'' ''2026-01-19''
      (appData (fst (run exampleToggles (exampleRecurringWorld, 0)))) \<noteq> []"
    by (simp add: exampleToggles_def exampleRecurringWorld_def initialWorld_def
        initialAppData_def onData_def toggleRecurringTask_def isRecurringCompletedToday_def
        exampleDaily_def exampleInterval_def DIFFICULTIES_def t h recurringEntriesOn_def
        isTodaysEntryOf_def splice1_def)
  from toggles_keep_at_most_one [OF a m, of 0] n show ?thesis
    by simp
qed

text \<open>
  Claim C6. The property does not hold of every state the script reaches. The one-time
  backfill \<open>runBackfillJan31\<close>, which runs after the migrations of the first load, appends
  an entry with \<open>isRecurring\<close> set and the date 2026-01-31 23:00 for the preset task
  \<^verbatim>\<open>brush_night\<close> and does not record the completion in \<open>recurringCompletions\<close>. When
  the page is first loaded at 20:00 on 2026-01-31 and the task is checked off a minute
  later, \<open>toggleRecurringTask\<close> finds no completion recorded for the day and adds a second
  entry: the history holds two entries with \<open>isRecurring\<close> set for \<^verbatim>\<open>brush_night\<close> on
  the app-date 2026-01-31.
\<close>

theorem backfilled_day_two_entries:
  "getTodayDateString 1769889660000 = ''2026-01-31'' \<and>
   map t_completedAt (recurringEntriesOn ''brush_night'' ''2026-01-31''
       (appData (fst (run exampleBackfillLoad (initialWorld, 0)))))
     = [Some 1769900400000] \<and>
   recurringCompletions (appData (fst (run exampleBackfillLoad (initialWorld, 0))))
     ''brush_night'' = None \<and>
   map t_completedAt (recurringEntriesOn ''brush_night'' ''2026-01-31''
       (appData (fst (run (exampleBackfillLoad @ [exampleBackfillToggle]) (initialWorld, 0)))))
     = [Some 1769889660000, Some 1769900400000] \<and>
   length (recurringEntriesOn ''brush_night'' ''2026-01-31''
       (appData (fst (run (exampleBackfillLoad @ [exampleBackfillToggle]) (initialWorld, 0)))))
     = 2"
proof -
  let ?w = "runBackfillJan31 1769889600600 (\<lambda>k. ''0.5'')
      (onData (runMigrationsAndCleanup 1769889600500)
        (onData (addPresets 1769889600000) initialWorld))"
  let ?v = "onData (\<lambda>s. state_of (toggleRecurringTask 1769889660000 ''brush_night'' s)) ?w"
  have r: "fst (run exampleBackfillLoad (initialWorld, 0)) = ?w"
    "fst (run (exampleBackfillLoad @ [exampleBackfillToggle]) (initialWorld, 0)) = ?v"
    by (simp_all add: exampleBackfillLoad_def exampleBackfillToggle_def pricePaid_def)
  have t: "getTodayDateString 1769889660000 = ''2026-01-31''"
    by code_simp
  have b: "map t_completedAt (recurringEntriesOn ''brush_night'' ''2026-01-31'' (appData ?w))
      = [Some 1769900400000]"
    "recurringCompletions (appData ?w) ''brush_night'' = None"
    by code_simp+
  have a: "map t_completedAt (recurringEntriesOn ''brush_night'' ''2026-01-31'' (appData ?v))
      = [Some 1769889660000, Some 1769900400000]"
    by code_simp
  from a have l: "length (recurringEntriesOn ''brush_night'' ''2026-01-31'' (appData ?v)) = 2"
    using length_map [of t_completedAt] by (metis length_Cons list.size(3) numeral_2_eq_2)
  from t a b l show ?thesis
    by (simp only: r simp_thms)
qed

section \<open>The coin ledger\<close>

lemma exceedsBy_add: "exceedsBy t b d \<Longrightarrow> exceedsBy (js_add t (Num c)) (js_add b (Num c)) d"
  by (cases t; cases b) simp_all

lemma exceedsBy_sub: "exceedsBy t b d \<Longrightarrow> exceedsBy (js_sub t c) (js_sub b c) d"
  by (cases t; cases b; cases c) simp_all

lemma exceedsBy_spend:
  "exceedsBy t b d \<Longrightarrow> exceedsBy t (js_sub b (Num p)) (d + p)"
  by (cases t; cases b) simp_all

lemma economyHolds_addCoins:
  "economyHolds st n \<Longrightarrow> economyHolds (addCoins (Num c) st) n"
  by (simp add: economyHolds_def addCoins_def refundGiven_def exceedsBy_add)

lemma economyHolds_removeCoins:
  "economyHolds st n \<Longrightarrow> economyHolds (removeCoins c st) n"
  by (simp add: economyHolds_def removeCoins_def refundGiven_def exceedsBy_sub)

lemma economyHolds_setStatsCounter:
  "economyHolds (setStatsCounter st key v) n = economyHolds st n"
  by (simp add: economyHolds_def setStatsCounter_def refundGiven_def)

lemma economyHolds_incrementTaskCount:
  "economyHolds (incrementTaskCount d st) n = economyHolds st n"
  by (simp add: incrementTaskCount_def Let_def economyHolds_setStatsCounter split: option.splits)

lemma economyHolds_decrementTaskCount:
  "economyHolds (decrementTaskCount d st) n = economyHolds st n"
  by (simp add: decrementTaskCount_def Let_def economyHolds_setStatsCounter split: option.splits)

lemmas economy_simps = economyHolds_addCoins economyHolds_removeCoins
  economyHolds_incrementTaskCount economyHolds_decrementTaskCount

lemma toggleTask_economy:
  "economyHolds (stats s) n \<Longrightarrow> economyHolds (stats (state_of (toggleTask now ident s))) n"
  by (simp add: toggleTask_def Let_def economy_simps split: option.splits)

lemma uncompleteTask_economy:
  "economyHolds (stats s) n \<Longrightarrow> economyHolds (stats (state_of (uncompleteTask ident s))) n"
  by (simp add: uncompleteTask_def Let_def economy_simps split: option.splits)

lemma toggleRecurringTask_economy:
  "economyHolds (stats s) n \<Longrightarrow>
     economyHolds (stats (state_of (toggleRecurringTask now ident s))) n"
  by (simp add: toggleRecurringTask_def Let_def economy_simps split: option.splits)

lemma subtaskCoinLogic_economy:
  "economyHolds st n \<Longrightarrow> economyHolds (subtaskCoinLogic d sub st) n"
  by (simp add: subtaskCoinLogic_def economy_simps)


lemma toggleSubtask_economy:
  assumes "economyHolds (stats s) n"
  shows "economyHolds (stats (state_of (toggleSubtask now parentId subtaskId type s))) n"
proof (cases "type = ''recurring''")
  case True
  show ?thesis
  proof (cases "findIndex (\<lambda>t. r_id t = parentId) (recurringTasks s)")
    case None
    then show ?thesis using assms True by (simp add: toggleSubtask_def)
  next
    case (Some parent)
    note p = Some
    show ?thesis
    proof (cases "findIndex (\<lambda>x. s_id x = subtaskId) (r_subtasks (recurringTasks s ! parent))")
      case None
      then show ?thesis using assms True p by (simp add: toggleSubtask_def Let_def)
    next
      case (Some sub)
      define task0 where "task0 = recurringTasks s ! parent"
      define subtask where "subtask =
        (r_subtasks task0 ! sub)\<lparr>s_completed := \<not> s_completed (r_subtasks task0 ! sub)\<rparr>"
      define task where "task = task0\<lparr>r_subtasks := (r_subtasks task0)[sub := subtask]\<rparr>"
      define s1 where "s1 = s\<lparr>recurringTasks := (recurringTasks s)[parent := task],
        stats := subtaskCoinLogic (r_distributeCoins task) subtask (stats s)\<rparr>"
      have m1: "economyHolds (stats s1) n"
        using assms by (simp add: s1_def subtaskCoinLogic_economy)
      have e: "toggleSubtask now parentId subtaskId type s =
          (if list_all s_completed (r_subtasks task) then
             (if \<not> isRecurringCompletedToday now parentId s1
              then toggleRecurringTask now parentId s1 else Returned s1)
           else if isRecurringCompletedToday now parentId s1 then
             (case findIndex (isTodaysEntryOf parentId (getTodayDateString now))
                     (completedHistory s1) of
                None \<Rightarrow> Returned s1
              | Some historyIndex \<Rightarrow>
                  Returned
                    (s1\<lparr>stats :=
                          decrementTaskCount (t_difficulty (completedHistory s1 ! historyIndex))
                            (removeCoins (to_number (t_coins (completedHistory s1 ! historyIndex)))
                              (stats s1)),
                        completedHistory := splice1 historyIndex (completedHistory s1)\<rparr>))
           else Returned s1)"
        using p Some True
        by (simp add: toggleSubtask_def Let_def s1_def task_def subtask_def task0_def
            isRecurringCompletedToday_def split: option.splits)
      show ?thesis
        unfolding e using m1 toggleRecurringTask_economy [OF m1]
        by (auto simp add: economy_simps split: option.splits)
    qed
  qed
next
  case False
  show ?thesis
  proof (cases "findIndex (\<lambda>t. t_id t = parentId) (tasks s)")
    case None
    then show ?thesis using assms False by (simp add: toggleSubtask_def)
  next
    case (Some parent)
    note p = Some
    show ?thesis
    proof (cases "findIndex (\<lambda>x. s_id x = subtaskId) (t_subtasks (tasks s ! parent))")
      case None
      then show ?thesis using assms False p by (simp add: toggleSubtask_def Let_def)
    next
      case (Some sub)
      define task0 where "task0 = tasks s ! parent"
      define subtask where "subtask =
        (t_subtasks task0 ! sub)\<lparr>s_completed := \<not> s_completed (t_subtasks task0 ! sub)\<rparr>"
      define task where "task = task0\<lparr>t_subtasks := (t_subtasks task0)[sub := subtask]\<rparr>"
      define s1 where "s1 = s\<lparr>tasks := (tasks s)[parent := task],
        stats := subtaskCoinLogic (t_distributeCoins task) subtask (stats s)\<rparr>"
      have m1: "economyHolds (stats s1) n"
        using assms by (simp add: s1_def subtaskCoinLogic_economy)
      have e: "toggleSubtask now parentId subtaskId type s =
          (if list_all s_completed (t_subtasks task) then
             (if type = ''task'' \<and> \<not> t_completed task
              then toggleTask now parentId s1 else Returned s1)
           else if type = ''task'' \<and> t_completed task
           then uncompleteTask parentId s1
           else Returned s1)"
        using p Some False
        by (simp add: toggleSubtask_def Let_def s1_def task_def subtask_def task0_def)
      show ?thesis
        unfolding e using m1 toggleTask_economy [OF m1] uncompleteTask_economy [OF m1]
        by auto
    qed
  qed
qed

lemma addJan20Entry_stats: "stats (addJan20Entry taskId fixId s) = stats s"
  by (simp add: addJan20Entry_def Let_def split: option.splits)

lemma recalculateEconomy_economy:
  "economyHolds (stats s) n \<Longrightarrow> economyHolds (stats (recalculateEconomy s)) n"
  by (cases "totalCoinsEarned (stats s)"; cases "currentBalance (stats s)")
    (simp_all add: recalculateEconomy_def Let_def economyHolds_def refundGiven_def)

lemma weekendSaleRefund_economy:
  "economyHolds (stats s) n \<Longrightarrow> economyHolds (stats (weekendSaleRefund s)) n"
  by (cases "totalCoinsEarned (stats s)"; cases "currentBalance (stats s)")
    (simp_all add: weekendSaleRefund_def Let_def economyHolds_def refundGiven_def)

lemma jan20MissingTasksFix_economy:
  "economyHolds (stats s) n \<Longrightarrow> economyHolds (stats (jan20MissingTasksFix s)) n"
  by (auto simp add: jan20MissingTasksFix_def Let_def addJan20Entry_stats economyHolds_def
      refundGiven_def exceedsBy_add)

lemma runMigrationsAndCleanup_stats:
  "stats (runMigrationsAndCleanup now s)
     = stats (jan20MissingTasksFix (weekendSaleRefund (recalculateEconomy
         (migrateCompletedTasks s))))"
  by (simp add: runMigrationsAndCleanup_def Let_def removeZombieHistory_def
      removeOrphanedCompletions_def removeStaleCompletions_def)

lemma runMigrationsAndCleanup_economy:
  assumes "economyHolds (stats s) n"
  shows "economyHolds (stats (runMigrationsAndCleanup now s)) n"
proof -
  have "economyHolds (stats (migrateCompletedTasks s)) n"
    using assms by (simp add: migrateCompletedTasks_def Let_def)
  then show ?thesis
    unfolding runMigrationsAndCleanup_stats
    by (intro jan20MissingTasksFix_economy weekendSaleRefund_economy
        recalculateEconomy_economy)
qed

lemma backfillOne_economy:
  "economyHolds (stats s) n \<Longrightarrow> economyHolds (stats (backfillOne now suffix target s)) n"
  by (simp add: backfillOne_def Let_def economy_simps economyHolds_setStatsCounter
      split: option.splits)

lemma backfill_fold_economy:
  "economyHolds (stats s) n \<Longrightarrow>
     economyHolds (stats (foldl (\<lambda>s (k, target). backfillOne now (rand k) target s) s kts)) n"
  by (induction kts arbitrary: s) (auto simp add: backfillOne_economy)

lemma runBackfillJan31_economy:
  "economyHolds (stats (appData w)) n \<Longrightarrow>
     economyHolds (stats (appData (runBackfillJan31 now rand w))) n"
  by (simp add: runBackfillJan31_def backfill_fold_economy)

lemma confirmClaimReward_economy:
  assumes "economyHolds (stats (appData w)) n"
  shows "economyHolds (stats (appData (confirmClaimReward now w)))
           (n + pricePaid (ConfirmClaimReward now) w)"
  using assms
  by (cases "totalCoinsEarned (stats (appData w))"; cases "currentBalance (stats (appData w))")
    (auto simp add: confirmClaimReward_def pricePaid_def closeClaimModal_def Let_def
      economyHolds_def refundGiven_def split: option.splits prod.splits)


lemma perform_economy:
  assumes "economyHolds (stats (appData w)) n"
  shows "economyHolds (stats (appData (perform a w))) (n + pricePaid a w)"
proof (cases a)
  case (ConfirmClaimReward now)
  then show ?thesis using confirmClaimReward_economy [OF assms] by simp
next
  case (RunBackfillJan31 now rand)
  then show ?thesis using runBackfillJan31_economy [OF assms] by (simp add: pricePaid_def)
next
  case (OpenShopClaimModal now itemId)
  then show ?thesis
    using assms by (simp add: pricePaid_def openShopClaimModal_def Let_def split: option.splits)
next
  case (OpenClaimModal ident)
  then show ?thesis
    using assms by (simp add: pricePaid_def openClaimModal_def split: option.splits)
next
  case CloseClaimModal
  then show ?thesis using assms by (simp add: pricePaid_def closeClaimModal_def)
next
  case (SaveNewTask now rand form)
  then show ?thesis
    using assms by (simp add: pricePaid_def onData_def saveNewTask_def Let_def)
next
  case (SaveNewReward now form)
  then show ?thesis
    using assms by (simp add: pricePaid_def onData_def saveNewReward_def Let_def)
next
  case (AddPresets now)
  then show ?thesis using assms by (simp add: pricePaid_def onData_def addPresets_def)
next
  case (ToggleTask now ident)
  then show ?thesis
    using toggleTask_economy [OF assms] by (simp add: pricePaid_def onData_def)
next
  case (UncompleteTask ident)
  then show ?thesis
    using uncompleteTask_economy [OF assms] by (simp add: pricePaid_def onData_def)
next
  case (ToggleRecurringTask now ident)
  then show ?thesis
    using toggleRecurringTask_economy [OF assms] by (simp add: pricePaid_def onData_def)
next
  case (ToggleSubtask now parentId subtaskId type)
  then show ?thesis
    using toggleSubtask_economy [OF assms] by (simp add: pricePaid_def onData_def)
next
  case (DeleteTask ident)
  then show ?thesis using assms by (simp add: pricePaid_def onData_def deleteTask_def)
next
  case (DeleteRecurringTask ident)
  then show ?thesis
    using assms by (simp add: pricePaid_def onData_def deleteRecurringTask_def)
next
  case (CleanupExpiredTasks now)
  then show ?thesis
    using assms by (simp add: pricePaid_def onData_def cleanupExpiredTasks_def Let_def)
next
  case (RunMigrationsAndCleanup now)
  then show ?thesis
    using runMigrationsAndCleanup_economy [OF assms] by (simp add: pricePaid_def onData_def)
qed

lemma run_economy:
  assumes "economyHolds (stats (appData w)) n"
  shows "economyHolds (stats (appData (fst (run acts (w, n))))) (snd (run acts (w, n)))"
  using assms
proof (induction acts arbitrary: w n)
  case Nil
  then show ?case by simp
next
  case (Cons a acts)
  from Cons.IH [OF perform_economy [OF Cons.prems]] show ?case by simp
qed

text \<open>
  Claim C2, amended. In every state reached from the initial empty state by a sequence of
  the operations, if the balance is a number then the total earned is a number, and the
  total earned less the balance equals the sum of the prices paid for claimed rewards and
  shop purchases, less the 36 coins of the weekend-sale refund once
  \<open>runMigrationsAndCleanup\<close> has applied it.
\<close>

theorem economy_invariant_with_refund:
  assumes "run acts (initialWorld, 0) = (w, spent)"
    and "currentBalance (stats (appData w)) = Num b"
  shows "\<exists>t. totalCoinsEarned (stats (appData w)) = Num t \<and>
           t - b = spent - refundGiven (stats (appData w))"
proof -
  have "economyHolds (stats (appData initialWorld)) 0"
    by (simp add: economyHolds_def refundGiven_def initialWorld_def initialAppData_def)
  from run_economy [OF this, of acts] assms(1)
  have "economyHolds (stats (appData w)) spent" by simp
  with assms(2) show ?thesis
    by (cases "totalCoinsEarned (stats (appData w))") (simp_all add: economyHolds_def)
qed


lemma addJan20Entry_rewards: "rewards (addJan20Entry taskId fixId s) = rewards s"
  by (simp add: addJan20Entry_def Let_def split: option.splits)

lemma migration_blocks_rewards:
  "rewards (migrateCompletedTasks s) = rewards s"
  "rewards (recalculateEconomy s) = rewards s"
  "rewards (weekendSaleRefund s) = rewards s"
  "rewards (jan20MissingTasksFix s) = rewards s"
  by (simp_all add: migrateCompletedTasks_def recalculateEconomy_def weekendSaleRefund_def
      jan20MissingTasksFix_def addJan20Entry_rewards Let_def)

lemma runMigrationsAndCleanup_rewards:
  "rewards (runMigrationsAndCleanup now s) = rewards s"
  by (simp add: runMigrationsAndCleanup_def Let_def removeZombieHistory_def
      removeOrphanedCompletions_def removeStaleCompletions_def migration_blocks_rewards)

lemma fresh_migration_stats:
  assumes "stats s = stats initialAppData" and "tasks s = []" and "completedHistory s = []"
  shows "totalCoinsEarned (stats (runMigrationsAndCleanup now s)) = Num 10"
    and "currentBalance (stats (runMigrationsAndCleanup now s)) = Num 46"
    and "rewardsClaimed (stats (runMigrationsAndCleanup now s)) = 0"
    and "weekend_sale_refund_2026_01_18 (stats (runMigrationsAndCleanup now s))"
  using assms
  by (simp_all add: runMigrationsAndCleanup_stats jan20MissingTasksFix_def Let_def
      addJan20Entry_stats weekendSaleRefund_def recalculateEconomy_def
      migrateCompletedTasks_def trueTotalEarned_def initialAppData_def)

theorem economy_invariant_with_refund_witness:
  "snd (run exampleSession (initialWorld, 0)) = 10 \<and>
   currentBalance (stats (appData (fst (run exampleSession (initialWorld, 0))))) = Num 36 \<and>
   refundGiven (stats (appData (fst (run exampleSession (initialWorld, 0))))) = 36 \<and>
   (\<exists>t. totalCoinsEarned (stats (appData (fst (run exampleSession (initialWorld, 0))))) = Num t
        \<and> t - 36 = 10 - 36)"
proof -
  define w1 where "w1 = perform (RunMigrationsAndCleanup 1768810000000) initialWorld"
  define w2 where "w2 = perform (SaveNewReward 1768810000001 exampleRewardForm) w1"
  define w3 where "w3 = perform (OpenClaimModal ''1768810000001'') w2"
  define w4 where "w4 = perform (ConfirmClaimReward 1768810000002) w3"
  have i: "stats initialAppData = stats initialAppData" "tasks initialAppData = []"
    "completedHistory initialAppData = []"
    by (simp_all add: initialAppData_def)
  have p1: "currentBalance (stats (appData w1)) = Num 46"
    "weekend_sale_refund_2026_01_18 (stats (appData w1))"
    "rewards (appData w1) = []" "currentShopItemToClaim w1 = None"
    using fresh_migration_stats [OF i, of 1768810000000]
    by (simp_all add: w1_def onData_def initialWorld_def runMigrationsAndCleanup_rewards
        initialAppData_def)
  have n: "String (dateNow 1768810000001) = ''1768810000001''" by code_simp
  have p2: "stats (appData w2) = stats (appData w1)" "currentShopItemToClaim w2 = None"
    "map rw_id (rewards (appData w2)) = [''1768810000001'']"
    "map rw_cost (rewards (appData w2)) = [10]"
    using p1 by (simp_all add: w2_def onData_def saveNewReward_def exampleRewardForm_def n)
  from p2(3,4) obtain r where r: "rewards (appData w2) = [r]" "rw_id r = ''1768810000001''"
    "rw_cost r = 10"
    by auto
  have p3: "appData w3 = appData w2" "currentShopItemToClaim w3 = None"
    "currentRewardToClaim w3 = Some 0"
    using p2(2) r by (simp_all add: w3_def openClaimModal_def)
  have q: "pricePaid (ConfirmClaimReward 1768810000002) w3 = 10"
    using p3 r by (simp add: pricePaid_def)
  have p4: "currentBalance (stats (appData w4)) = Num 36"
    "weekend_sale_refund_2026_01_18 (stats (appData w4))"
    using p3 r p2(1) p1
    by (simp_all add: w4_def confirmClaimReward_def closeClaimModal_def Let_def)
  have pp: "pricePaid (RunMigrationsAndCleanup 1768810000000) initialWorld = 0"
    "pricePaid (SaveNewReward 1768810000001 exampleRewardForm) w1 = 0"
    "pricePaid (OpenClaimModal ''1768810000001'') w2 = 0"
    by (simp_all add: pricePaid_def)
  have e: "run exampleSession (initialWorld, 0) = (w4, 10)"
    unfolding exampleSession_def run.simps
    by (simp only: w1_def [symmetric] w2_def [symmetric] w3_def [symmetric]
        w4_def [symmetric] pp q) simp
  from economy_invariant_with_refund [OF e p4(1)] p4 show ?thesis
    by (simp add: e refundGiven_def)
qed

text \<open>
  The claim as stated fails: on a new user's first load the migrations credit the refund
  to the balance only. Nothing has been spent, the total earned is 10 and the balance 46.
\<close>

theorem economy_refund_counterexample:
  "snd (run exampleFirstLoad (initialWorld, 0)) = 0 \<and>
   totalCoinsEarned (stats (appData (fst (run exampleFirstLoad (initialWorld, 0))))) = Num 10 \<and>
   currentBalance (stats (appData (fst (run exampleFirstLoad (initialWorld, 0))))) = Num 46"
proof -
  let ?s = "addPresets 1768810000000 initialAppData"
  have i: "stats ?s = stats initialAppData" "tasks ?s = []" "completedHistory ?s = []"
    by (simp_all add: addPresets_def initialAppData_def)
  show ?thesis
    using fresh_migration_stats [OF i, of 1768810000500]
    by (simp add: exampleFirstLoad_def onData_def initialWorld_def pricePaid_def)
qed


text \<open>
  States whose balance is not a number are reachable: when a recurring task has been
  checked off and one of its subtasks is ticked afterwards, \<open>toggleSubtask\<close> subtracts
  the \<open>coins\<close> of today's history entry, which entries written by \<open>toggleRecurringTask\<close>
  do not carry.
\<close>

lemma subtask_toggle_loses_the_totals:
  "totalCoinsEarned (stats (appData (fst (run exampleChecklistSession
      (initialWorld\<lparr>appData := initialAppData\<lparr>recurringTasks := [exampleChecklist]\<rparr>\<rparr>, 0)))))
     = NaN \<and>
   currentBalance (stats (appData (fst (run exampleChecklistSession
      (initialWorld\<lparr>appData := initialAppData\<lparr>recurringTasks := [exampleChecklist]\<rparr>\<rparr>, 0)))))
     = NaN"
proof -
  have t: "getTodayDateString 1768810000000 = ''2026-01-19''"
    "getTodayDateString 1768810060000 = ''2026-01-19''"
    "hDate 1768810000000 = ''2026-01-19''"
    by code_simp+
  show ?thesis
    by (simp add: exampleChecklistSession_def exampleChecklist_def initialWorld_def
        initialAppData_def onData_def toggleRecurringTask_def toggleSubtask_def
        isRecurringCompletedToday_def DIFFICULTIES_def t isTodaysEntryOf_def
        subtaskCoinLogic_def to_number_def removeCoins_def addCoins_def
        incrementTaskCount_def decrementTaskCount_def counterKey_def toUpperCase_def
        statsCounter_def setStatsCounter_def Let_def)
qed
section \<open>Consistency analytics: days without an active task\<close>













lemma periodBuckets_Nil: "periodBuckets zone firstUse now s [] = []"
  by (simp add: periodBuckets_def)









end
